theory Spec2Isabelle
  imports Main
begin

section \<open>The HTTP probing monitor of \<^verbatim>\<open>monitor.go\<close>\<close>

text \<open>
  The program probes one URL from several workers through an HTTP client whose dial step
  substitutes a fixed host. Everything the Go code does to the outside (printing, reading
  the clock, dialing, closing) is written as a change of an explicit \<open>world\<close>; what the
  operating system and the network answer is a parameter (\<open>network\<close>, \<open>exchange\<close>).
\<close>

subsection \<open>Durations and the constants of the program\<close>

type_synonym Duration = int
  \<comment> \<open>\<^verbatim>\<open>time.Duration\<close>: a signed 64-bit count of nanoseconds\<close>

definition Millisecond :: Duration where
  "Millisecond = 1000000"

definition Second :: Duration where
  "Second = 1000 * Millisecond"

definition targetURL :: string where
  "targetURL = ''https://aga-degradation.pacnw.xyz/test_50kb.bin''"

definition hostOverride :: string where
  "hostOverride = ''alias-icn1.vercel.com''"

definition requestInterval :: Duration where
  "requestInterval = 1 * Second"

definition workerOffset :: Duration where
  "workerOffset = 147 * Millisecond"

definition requestTimeout :: Duration where
  "requestTimeout = 10 * Second"

subsection \<open>Errors, printed records and the world\<close>

datatype error =
    AddrError string string   \<comment> \<open>\<^verbatim>\<open>net.AddrError{Err, Addr}\<close>\<close>
  | ErrSyntax string          \<comment> \<open>\<^verbatim>\<open>strconv.ErrSyntax\<close> for the given input\<close>
  | ErrRange string           \<comment> \<open>\<^verbatim>\<open>strconv.ErrRange\<close> for the given input\<close>
  | ErrTimeout                \<comment> \<open>a deadline of the dialer or of the client passed\<close>
  | NetError string           \<comment> \<open>any other failure the network reports\<close>

datatype arg = S string | I int | D Duration | T int string | E error
  \<comment> \<open>an operand of a format string: \<open>T\<close> is a clock reading with its layout, \<open>D\<close> a duration\<close>

datatype printed = Printf string "arg list" | Println string
  \<comment> \<open>one call of \<^verbatim>\<open>fmt.Printf\<close> or \<^verbatim>\<open>fmt.Println\<close>: the format as written and its operands\<close>

datatype tcpconn = TCPConn nat
  \<comment> \<open>a connection of the operating system, the \<^verbatim>\<open>net.Conn\<close> the dialer returns\<close>

record world =
  clock :: int                          \<comment> \<open>what \<^verbatim>\<open>time.Now()\<close> reads, in nanoseconds\<close>
  stdout :: "printed list"               \<comment> \<open>everything printed so far, oldest first\<close>
  dialed :: "(string \<times> string) list"    \<comment> \<open>network and address of every TCP connect attempted\<close>
  closed_conns :: "tcpconn list"        \<comment> \<open>the connections closed so far\<close>
  closed_bodies :: nat                  \<comment> \<open>how many response bodies were closed\<close>

definition print :: "printed \<Rightarrow> world \<Rightarrow> world" where
  "print l w = w\<lparr>stdout := stdout w @ [l]\<rparr>"

definition elapse :: "Duration \<Rightarrow> world \<Rightarrow> world" where
  "elapse d w = w\<lparr>clock := clock w + d\<rparr>"

datatype 'a timed = Never | After Duration 'a
  \<comment> \<open>an answer from outside the program: it never comes, or it comes after a delay\<close>

record network =
  connect :: "string \<Rightarrow> string \<Rightarrow> (error + tcpconn) timed"
    \<comment> \<open>what a TCP connect to the network and address does\<close>
  close_result :: "tcpconn \<Rightarrow> error option"
    \<comment> \<open>the error, if any, that closing a connection reports\<close>

subsection \<open>The connection wrapper\<close>

record connWrapper =
  Conn :: tcpconn
  addr :: string
  prefix :: string

definition Conn_Close :: "network \<Rightarrow> tcpconn \<Rightarrow> world \<Rightarrow> error option \<times> world" where
  \<comment> \<open>the embedded connection's own \<^verbatim>\<open>Close\<close>\<close>
  "Conn_Close nw c w = (close_result nw c, w\<lparr>closed_conns := closed_conns w @ [c]\<rparr>)"

definition plug :: string where
  \<comment> \<open>U+1F50C in UTF-8\<close>
  "plug = [CHR 0xF0, CHR 0x9F, CHR 0x94, CHR 0x8C]"

definition link :: string where
  \<comment> \<open>U+1F517 in UTF-8\<close>
  "link = [CHR 0xF0, CHR 0x9F, CHR 0x94, CHR 0x97]"

definition closed_format :: string where
  "closed_format = CHR 0x0A # ''%s '' @ plug @ '' CONNECTION CLOSED to %s''"

definition Close :: "network \<Rightarrow> connWrapper \<Rightarrow> world \<Rightarrow> error option \<times> world" where
  "Close nw c w =
     (let w1 = print (Printf closed_format [S (prefix c), S (addr c)]) w
      in Conn_Close nw (Conn c) w1)"

subsection \<open>Addresses: \<^verbatim>\<open>net.SplitHostPort\<close> and \<^verbatim>\<open>net.JoinHostPort\<close>\<close>

text \<open>
  The two address functions of Go's \<^verbatim>\<open>net\<close> package that the dial step calls, written
  out branch by branch. Indices are byte positions; \<open>None\<close> stands for Go's \<open>-1\<close>.
\<close>

definition IndexByte :: "string \<Rightarrow> char \<Rightarrow> nat option" where
  "IndexByte s c =
     (if c \<in> set s then Some (length (takeWhile (\<lambda>x. x \<noteq> c) s)) else None)"

definition LastIndexByte :: "string \<Rightarrow> char \<Rightarrow> nat option" where
  "LastIndexByte s c =
     (if c \<in> set s
      then Some (length s - 1 - length (takeWhile (\<lambda>x. x \<noteq> c) (rev s)))
      else None)"

definition missingPort :: string where
  "missingPort = ''missing port in address''"

definition tooManyColons :: string where
  "tooManyColons = ''too many colons in address''"

definition quoted :: "string \<Rightarrow> string" where
  \<comment> \<open>the text between two apostrophes\<close>
  "quoted s = [CHR 0x27] @ s @ [CHR 0x27]"

definition slice :: "string \<Rightarrow> nat \<Rightarrow> nat \<Rightarrow> string" where
  \<comment> \<open>\<^verbatim>\<open>s[lo:hi]\<close>\<close>
  "slice s lo hi = drop lo (take hi s)"

definition brackets_ok :: "string \<Rightarrow> nat \<Rightarrow> nat \<Rightarrow> nat \<Rightarrow> string \<Rightarrow> error + string \<times> string" where
  \<comment> \<open>the last checks of \<^verbatim>\<open>SplitHostPort\<close>, common to both shapes of host\<close>
  "brackets_ok hostport i j k host =
     (if IndexByte (drop j hostport) (CHR ''['') \<noteq> None
        then Inl (AddrError (''unexpected '' @ quoted ''['' @ '' in address'') hostport)
      else if IndexByte (drop k hostport) (CHR '']'') \<noteq> None
        then Inl (AddrError (''unexpected '' @ quoted '']'' @ '' in address'') hostport)
      else Inr (host, drop (i + 1) hostport))"

definition SplitHostPort :: "string \<Rightarrow> error + string \<times> string" where
  "SplitHostPort hostport =
     (case LastIndexByte hostport (CHR '':'') of
        None \<Rightarrow> Inl (AddrError missingPort hostport)
      | Some i \<Rightarrow>
          if hostport ! 0 = CHR ''[''
          then
            (case IndexByte hostport (CHR '']'') of
               None \<Rightarrow>
                 Inl (AddrError (''missing '' @ quoted '']'' @ '' in address'') hostport)
             | Some e \<Rightarrow>
                 if e + 1 = length hostport then Inl (AddrError missingPort hostport)
                 else if e + 1 = i then brackets_ok hostport i 1 (e + 1) (slice hostport 1 e)
                 else if hostport ! (e + 1) = CHR '':'' then Inl (AddrError tooManyColons hostport)
                 else Inl (AddrError missingPort hostport))
          else
            (let host = take i hostport
             in if IndexByte host (CHR '':'') \<noteq> None
                then Inl (AddrError tooManyColons hostport)
                else brackets_ok hostport i 0 0 host))"

definition JoinHostPort :: "string \<Rightarrow> string \<Rightarrow> string" where
  "JoinHostPort host port =
     (if IndexByte host (CHR '':'') \<noteq> None
      then ''['' @ host @ '']:'' @ port
      else host @ '':'' @ port)"

subsection \<open>The dialer and the dial step of the client\<close>

record Dialer =
  Timeout :: Duration
  KeepAlive :: Duration

type_synonym Context = "int option"
  \<comment> \<open>a \<^verbatim>\<open>context.Context\<close>, as far as the program can meet one: its deadline, if it has one\<close>

definition time_limit :: "Dialer \<Rightarrow> Context \<Rightarrow> world \<Rightarrow> Duration option" where
  \<comment> \<open>how long a connect attempt may take: the earlier of the dialer's timeout (zero means
      none) and the context's deadline\<close>
  "time_limit d ctx w =
     (case ctx of
        None \<Rightarrow> if 0 < Timeout d then Some (Timeout d) else None
      | Some dl \<Rightarrow>
          if 0 < Timeout d then Some (min (Timeout d) (max 0 (dl - clock w)))
          else Some (max 0 (dl - clock w)))"

definition Dialer_DialContext ::
  "Dialer \<Rightarrow> Context \<Rightarrow> network \<Rightarrow> string \<Rightarrow> string \<Rightarrow> world
     \<Rightarrow> ((error + tcpconn) \<times> world) option" where
  \<comment> \<open>\<^verbatim>\<open>(*net.Dialer).DialContext\<close>: one connect attempt, given up when its time limit (if it
      has one) passes first. \<open>None\<close>: the call never returns.\<close>
  "Dialer_DialContext d ctx nw net address w =
     (let w1 = w\<lparr>dialed := dialed w @ [(net, address)]\<rparr>
      in case connect nw net address of
           Never \<Rightarrow>
             (case time_limit d ctx w of
                None \<Rightarrow> None
              | Some l \<Rightarrow> Some (Inl ErrTimeout, elapse l w1))
         | After t r \<Rightarrow>
             (case time_limit d ctx w of
                None \<Rightarrow> Some (r, elapse t w1)
              | Some l \<Rightarrow>
                  if l < t then Some (Inl ErrTimeout, elapse l w1) else Some (r, elapse t w1)))"

definition established_format :: string where
  "established_format = CHR 0x0A # ''%s '' @ link @ '' NEW CONNECTION established to %s''"

definition dial_address :: "string \<Rightarrow> string \<Rightarrow> error + string" where
  \<comment> \<open>the first lines of the dial step: the address to connect to, for the override \<open>ov\<close>\<close>
  "dial_address ov a =
     (if ov \<noteq> []
      then (case SplitHostPort a of
              Inl err \<Rightarrow> Inl err
            | Inr (_, port) \<Rightarrow> Inr (JoinHostPort ov port))
      else Inr a)"

definition DialContext_of ::
  "string \<Rightarrow> string \<Rightarrow> Context \<Rightarrow> network \<Rightarrow> string \<Rightarrow> string \<Rightarrow> world
     \<Rightarrow> ((error + connWrapper) \<times> world) option" where
  \<comment> \<open>the function literal that \<^verbatim>\<open>createHTTPClient\<close> stores in the transport, for the override
      \<open>ov\<close> and the worker prefix \<open>pfx\<close>. The literal ignores the network it is asked for and
      dials \<^verbatim>\<open>tcp4\<close>.\<close>
  "DialContext_of ov pfx ctx nw net a w =
     (case dial_address ov a of
        Inl err \<Rightarrow> Some (Inl err, w)
      | Inr a' \<Rightarrow>
          (let d = \<lparr>Timeout = 10 * Second, KeepAlive = 30 * Second\<rparr>
           in case Dialer_DialContext d ctx nw ''tcp4'' a' w of
                None \<Rightarrow> None
              | Some (Inr conn, w1) \<Rightarrow>
                  Some (Inr \<lparr>Conn = conn, addr = a', prefix = pfx\<rparr>,
                        print (Printf established_format [S pfx, S a']) w1)
              | Some (Inl err, w1) \<Rightarrow> Some (Inl err, w1)))"

record Transport =
  DialContext ::
    "Context \<Rightarrow> network \<Rightarrow> string \<Rightarrow> string \<Rightarrow> world \<Rightarrow> ((error + connWrapper) \<times> world) option"
  MaxIdleConns :: int
  MaxIdleConnsPerHost :: int
  MaxConnsPerHost :: int
  IdleConnTimeout :: Duration
  DisableKeepAlives :: bool
  ResponseHeaderTimeout :: Duration

record Client =
  Transport :: Transport
  Timeout :: Duration

definition createHTTPClient :: "string \<Rightarrow> Client" where
  \<comment> \<open>fields the source does not set keep Go's zero value\<close>
  "createHTTPClient pfx =
     \<lparr>Transport =
        \<lparr>DialContext = DialContext_of hostOverride pfx,
         MaxIdleConns = 1,
         MaxIdleConnsPerHost = 1,
         MaxConnsPerHost = 1,
         IdleConnTimeout = 10 * Second,
         DisableKeepAlives = False,
         ResponseHeaderTimeout = 0\<rparr>,
      Timeout = 0\<rparr>"

subsection \<open>A concrete world and network, for evaluating the definitions\<close>

definition world0 :: world where
  "world0 = \<lparr>clock = 0, stdout = [], dialed = [], closed_conns = [], closed_bodies = 0\<rparr>"

definition network0 :: network where
  "network0 = \<lparr>connect = (\<lambda>net a. After (5 * Millisecond) (Inr (TCPConn 1))),
               close_result = (\<lambda>c. None)\<rparr>"


subsection \<open>Clock readings and durations: \<^verbatim>\<open>Time.Sub\<close>, \<^verbatim>\<open>Duration.Round\<close>\<close>

definition maxDuration :: Duration where
  "maxDuration = 2 ^ 63 - 1"

definition minDuration :: Duration where
  "minDuration = - (2 ^ 63)"

definition wrap64 :: "int \<Rightarrow> int" where
  \<comment> \<open>the value a signed 64-bit register holds after an addition or subtraction\<close>
  "wrap64 i = (i + 2 ^ 63) mod 2 ^ 64 - 2 ^ 63"

definition trunc_rem :: "int \<Rightarrow> int \<Rightarrow> int" where
  \<comment> \<open>Go's \<^verbatim>\<open>%\<close>: the remainder has the sign of the dividend\<close>
  "trunc_rem a b = sgn a * (\<bar>a\<bar> mod \<bar>b\<bar>)"

definition Sub :: "int \<Rightarrow> int \<Rightarrow> Duration" where
  \<comment> \<open>\<^verbatim>\<open>t.Sub(u)\<close> on two readings of the clock: the difference, saturated\<close>
  "Sub t u =
     (let d = t - u
      in if maxDuration < d then maxDuration else if d < minDuration then minDuration else d)"

definition lessThanHalf :: "Duration \<Rightarrow> Duration \<Rightarrow> bool" where
  \<comment> \<open>on unsigned 64-bit values\<close>
  "lessThanHalf x y = ((x mod 2 ^ 64 + x mod 2 ^ 64) mod 2 ^ 64 < y mod 2 ^ 64)"

definition Round :: "Duration \<Rightarrow> Duration \<Rightarrow> Duration" where
  "Round d m =
     (if m \<le> 0 then d
      else
        (let r = trunc_rem d m
         in if d < 0
            then
              (let r = - r
               in if lessThanHalf r m then d + r
                  else (let d1 = wrap64 (d - m + r) in if d1 < d then d1 else minDuration))
            else if lessThanHalf r m then d - r
            else (let d1 = wrap64 (d + m - r) in if d1 > d then d1 else maxDuration)))"

definition layout :: string where
  "layout = ''15:04:05.000''"

definition Format :: "int \<Rightarrow> string \<Rightarrow> arg" where
  \<comment> \<open>\<^verbatim>\<open>t.Format(layout)\<close>, kept as the reading and the layout it is rendered with\<close>
  "Format t l = T t l"

subsection \<open>Responses: headers and bodies\<close>

definition is_lower :: "char \<Rightarrow> bool" where
  "is_lower c = (97 \<le> (of_char c :: nat) \<and> (of_char c :: nat) \<le> 122)"

definition is_upper :: "char \<Rightarrow> bool" where
  "is_upper c = (65 \<le> (of_char c :: nat) \<and> (of_char c :: nat) \<le> 90)"

definition is_digit :: "char \<Rightarrow> bool" where
  "is_digit c = (48 \<le> (of_char c :: nat) \<and> (of_char c :: nat) \<le> 57)"

definition validHeaderFieldByte :: "char \<Rightarrow> bool" where
  \<comment> \<open>the token characters of RFC 7230\<close>
  "validHeaderFieldByte c =
     (is_lower c \<or> is_upper c \<or> is_digit c
      \<or> c \<in> set (''!#$%&*+-.^_`|~'' @ [CHR 0x27]))"

fun canonical :: "bool \<Rightarrow> string \<Rightarrow> string" where
  \<comment> \<open>upper case for the first letter and after each dash, lower case elsewhere\<close>
  "canonical upper [] = []"
| "canonical upper (c # cs) =
     (let c' = (if upper \<and> is_lower c then char_of (of_char c - (32::nat))
                else if \<not> upper \<and> is_upper c then char_of (of_char c + (32::nat))
                else c)
      in c' # canonical (c' = CHR ''-'') cs)"

definition CanonicalMIMEHeaderKey :: "string \<Rightarrow> string" where
  "CanonicalMIMEHeaderKey s = (if list_all validHeaderFieldByte s then canonical True s else s)"

type_synonym Header = "string \<rightharpoonup> string list"
  \<comment> \<open>\<^verbatim>\<open>http.Header\<close>: the values of each field, under its canonical name\<close>

definition Header_Get :: "Header \<Rightarrow> string \<Rightarrow> string" where
  \<comment> \<open>\<^verbatim>\<open>Header.Get\<close>: the first value of the field, or the empty string\<close>
  "Header_Get h key =
     (case h (CanonicalMIMEHeaderKey key) of
        None \<Rightarrow> []
      | Some [] \<Rightarrow> []
      | Some (v # _) \<Rightarrow> v)"

record Body =
  content :: string
    \<comment> \<open>the complete body of the response, as the server sends it\<close>
  broken_after :: "(nat \<times> error) option"
    \<comment> \<open>reading fails with the error once that many bytes of it were read\<close>
  read_time :: "Duration option"
    \<comment> \<open>how long reading to the end (or to the failure) takes; \<open>None\<close>: it never ends\<close>

record Response =
  StatusCode :: int
  Header :: Header
  Body :: Body

definition Copy_Discard :: "Body \<Rightarrow> world \<Rightarrow> ((int \<times> error option) \<times> world) option" where
  \<comment> \<open>\<^verbatim>\<open>io.Copy(io.Discard, body)\<close>: reads until the end of the body or the first error, and
      returns the number of bytes read and that error\<close>
  "Copy_Discard b w =
     (case read_time b of
        None \<Rightarrow> None
      | Some t \<Rightarrow>
          (case broken_after b of
             None \<Rightarrow> Some ((int (length (content b)), None), elapse t w)
           | Some (k, e) \<Rightarrow>
               if k < length (content b) then Some ((int k, Some e), elapse t w)
               else Some ((int (length (content b)), None), elapse t w)))"

definition Body_Close :: "world \<Rightarrow> world" where
  "Body_Close w = w\<lparr>closed_bodies := closed_bodies w + 1\<rparr>"

subsection \<open>One GET of the client\<close>

record exchange =
  idle_conn :: "connWrapper option"
    \<comment> \<open>a kept-alive connection of the transport's pool that the request can use\<close>
  dial_addr :: string
    \<comment> \<open>without one, the address the transport asks its dial step for\<close>
  reply :: "(error + Response) timed"
    \<comment> \<open>what follows on the connection, up to the response header\<close>

definition Client_Get ::
  "Client \<Rightarrow> string \<Rightarrow> network \<Rightarrow> exchange \<Rightarrow> world \<Rightarrow> ((error + Response) \<times> world) option" where
  \<comment> \<open>\<^verbatim>\<open>client.Get(url)\<close> against the exchange \<open>x\<close>. A client with a positive \<open>Timeout\<close> gives
      up at its deadline; with \<open>Timeout = 0\<close> there is no deadline. The deadline is modelled up
      to the response header. \<open>None\<close>: the call never returns.\<close>
  "Client_Get c url nw x w =
     (let deadline = (if 0 < Timeout c then Some (clock w + Timeout c) else None)
      in case (case idle_conn x of
                 Some cw \<Rightarrow> Some (Inr cw, w)
               | None \<Rightarrow> DialContext (Transport c) deadline nw ''tcp'' (dial_addr x) w) of
           None \<Rightarrow> None
         | Some (Inl err, w1) \<Rightarrow> Some (Inl err, w1)
         | Some (Inr cw, w1) \<Rightarrow>
             (case reply x of
                Never \<Rightarrow>
                  (case deadline of
                     None \<Rightarrow> None
                   | Some dl \<Rightarrow> Some (Inl ErrTimeout, w1\<lparr>clock := max (clock w1) dl\<rparr>))
              | After t r \<Rightarrow>
                  (case deadline of
                     None \<Rightarrow> Some (r, elapse t w1)
                   | Some dl \<Rightarrow>
                       if dl < clock w1 + t
                       then Some (Inl ErrTimeout, w1\<lparr>clock := max (clock w1) dl\<rparr>)
                       else Some (r, elapse t w1))))"

subsection \<open>The prober\<close>

definition start_format :: string where
  "start_format = CHR 0x0A # ''%s [%s] Start''"

definition error_format :: string where
  "error_format = CHR 0x0A # ''%s [%s] Error: %v''"

definition end_format :: string where
  "end_format =
     CHR 0x0A # ''%s [%s] End - Status: %d, Size: %d bytes, Duration: %s, x-vercel-id: %s''"

definition makeRequest :: "Client \<Rightarrow> string \<Rightarrow> network \<Rightarrow> exchange \<Rightarrow> world \<Rightarrow> world option" where
  \<comment> \<open>\<open>None\<close>: the call never returns\<close>
  "makeRequest client pfx nw x w =
     (let startTime = clock w;
          timestamp = Format startTime layout;
          w1 = print (Printf start_format [S pfx, timestamp]) w
      in case Client_Get client targetURL nw x w1 of
           None \<Rightarrow> None
         | Some (r, w2) \<Rightarrow>
             (let endTime = clock w2;
                  endTimestamp = Format endTime layout
              in case r of
                   Inl err \<Rightarrow> Some (print (Printf error_format [S pfx, endTimestamp, E err]) w2)
                 | Inr resp \<Rightarrow>
                     (let vercelID = Header_Get (Header resp) ''x-vercel-id'';
                          vercelID = (if vercelID = [] then ''not found'' else vercelID)
                      in case Copy_Discard (Body resp) w2 of
                           None \<Rightarrow> None
                         | Some ((bytesRead, _), w3) \<Rightarrow>
                             (let duration = Round (Sub endTime startTime) Millisecond;
                                  w4 = print (Printf end_format
                                         [S pfx, endTimestamp, I (StatusCode resp), I bytesRead,
                                          D duration, S vercelID]) w3
                              in Some (Body_Close w4)))))"


definition started :: "string \<Rightarrow> world \<Rightarrow> world" where
  \<comment> \<open>the world in which \<open>makeRequest\<close> issues its GET: the start line is printed\<close>
  "started pfx w = print (Printf start_format [S pfx, Format (clock w) layout]) w"

definition header_text :: "Response \<Rightarrow> string" where
  \<comment> \<open>the text \<open>makeRequest\<close> prints for the header\<close>
  "header_text resp =
     (if Header_Get (Header resp) ''x-vercel-id'' = [] then ''not found''
      else Header_Get (Header resp) ''x-vercel-id'')"

subsection \<open>Concrete responses and exchanges, for evaluating the prober\<close>

definition response0 :: Response where
  "response0 =
     \<lparr>StatusCode = 200,
      Header = [''X-Vercel-Id'' \<mapsto> [''icn1::abc''], ''Content-Length'' \<mapsto> [''5'']],
      Body = \<lparr>content = ''hello'', broken_after = None, read_time = Some (250 * Millisecond)\<rparr>\<rparr>"

definition exchange0 :: exchange where
  \<comment> \<open>the header arrives 95 ms after the connection, the body takes 250 ms more\<close>
  "exchange0 =
     \<lparr>idle_conn = None,
      dial_addr = ''aga-degradation.pacnw.xyz:443'',
      reply = After (95 * Millisecond) (Inr response0)\<rparr>"

definition response_cut :: Response where
  \<comment> \<open>the connection breaks when two of the five bytes of the body were read\<close>
  "response_cut =
     response0\<lparr>Body := \<lparr>content = ''hello'',
                         broken_after = Some (2, NetError ''connection reset by peer''),
                         read_time = Some (3 * Millisecond)\<rparr>\<rparr>"

definition exchange_cut :: exchange where
  "exchange_cut = exchange0\<lparr>reply := After (95 * Millisecond) (Inr response_cut)\<rparr>"

definition response_blank :: Response where
  \<comment> \<open>the header field is there, with the empty value\<close>
  "response_blank = response0\<lparr>Header := [''X-Vercel-Id'' \<mapsto> [[]]]\<rparr>"

definition exchange_blank :: exchange where
  "exchange_blank = exchange0\<lparr>reply := After (95 * Millisecond) (Inr response_blank)\<rparr>"

definition response_bare :: Response where
  \<comment> \<open>the header field is absent\<close>
  "response_bare = response0\<lparr>Header := Map.empty\<rparr>"

definition exchange_bare :: exchange where
  "exchange_bare = exchange0\<lparr>reply := After (95 * Millisecond) (Inr response_bare)\<rparr>"


definition world_got :: world where
  \<comment> \<open>\<open>world0\<close> after the start line, the dial and 100 ms\<close>
  "world_got = \<lparr>clock = 100000000,
          stdout = [Printf start_format [S ''[G1] '', T 0 layout],
                    Printf established_format [S ''[G1] '', S ''alias-icn1.vercel.com:443'']],
          dialed = [(''tcp4'', ''alias-icn1.vercel.com:443'')],
          closed_conns = [], closed_bodies = 0\<rparr>"


subsection \<open>Numbers as text: \<^verbatim>\<open>strconv.Atoi\<close> and the verb \<^verbatim>\<open>%d\<close>\<close>

definition maxUint64 :: int where
  "maxUint64 = 2 ^ 64 - 1"

fun digits_loop :: "string \<Rightarrow> string \<Rightarrow> int \<Rightarrow> error + int" where
  \<comment> \<open>the loop of \<^verbatim>\<open>ParseUint\<close> in base 10 over the rest of the input \<open>s0\<close>, from the value \<open>n\<close>\<close>
  "digits_loop s0 [] n = Inr n"
| "digits_loop s0 (c # cs) n =
     (if \<not> is_digit c then Inl (ErrSyntax s0)
      else if maxUint64 div 10 + 1 \<le> n then Inl (ErrRange s0)
      else (let n1 = n * 10 + (of_char c - 48)
            in if maxUint64 < n1 then Inl (ErrRange s0) else digits_loop s0 cs n1))"

definition ParseUint :: "string \<Rightarrow> error + int" where
  "ParseUint s = (if s = [] then Inl (ErrSyntax s) else digits_loop s s 0)"

definition Atoi :: "string \<Rightarrow> error + int" where
  \<comment> \<open>\<^verbatim>\<open>strconv.Atoi\<close> where \<^verbatim>\<open>int\<close> has 64 bits: an optional sign and decimal digits\<close>
  "Atoi s =
     (if s = [] then Inl (ErrSyntax s)
      else
        (let neg = (hd s = CHR ''-'');
             s1 = (if hd s = CHR ''+'' \<or> hd s = CHR ''-'' then tl s else s)
         in case ParseUint s1 of
              Inl (ErrRange _) \<Rightarrow> Inl (ErrRange s)
            | Inl _ \<Rightarrow> Inl (ErrSyntax s)
            | Inr un \<Rightarrow>
                if \<not> neg \<and> 2 ^ 63 \<le> un then Inl (ErrRange s)
                else if neg \<and> 2 ^ 63 < un then Inl (ErrRange s)
                else Inr (if neg then - un else un)))"

fun digits_of :: "nat \<Rightarrow> string" where
  "digits_of n =
     (if n < 10 then [char_of (48 + n)]
      else digits_of (n div 10) @ [char_of (48 + n mod 10)])"

declare digits_of.simps [simp del]

definition itoa :: "int \<Rightarrow> string" where
  \<comment> \<open>an integer under the verb \<^verbatim>\<open>%d\<close>\<close>
  "itoa i = (if i < 0 then CHR ''-'' # digits_of (nat (- i)) else digits_of (nat i))"

subsection \<open>The worker\<close>

datatype signal = Interrupt | SIGTERM

datatype select = Tick exchange | Stop signal
  \<comment> \<open>what the \<^verbatim>\<open>select\<close> of the worker's loop receives: a tick of its ticker (with the
      exchange the probe then meets) or a value from the stop channel\<close>

datatype wstatus = Selecting | Returned | Stuck
  \<comment> \<open>waiting in the \<^verbatim>\<open>select\<close>; returned from \<open>runWorker\<close>; inside a probe that never returns\<close>

record worker =
  wid :: int
  status :: wstatus
  wworld :: world

definition worker_prefix :: "int \<Rightarrow> string" where
  \<comment> \<open>\<^verbatim>\<open>fmt.Sprintf("[G%d] ", workerID)\<close>\<close>
  "worker_prefix workerID = ''[G'' @ itoa workerID @ ''] ''"

definition worker_started_format :: string where
  "worker_started_format = ''%s Worker %d started'' @ [CHR 0x0A]"

definition worker_stopping_format :: string where
  "worker_stopping_format = ''%s Worker %d stopping...'' @ [CHR 0x0A]"

definition worker_start :: "int \<Rightarrow> network \<Rightarrow> exchange \<Rightarrow> world \<Rightarrow> worker" where
  \<comment> \<open>\<open>runWorker\<close> up to its loop: the client, the ticker of period \<open>requestInterval\<close> (its
      ticks are the \<open>Tick\<close>s the loop receives), the started line, the initial probe\<close>
  "worker_start workerID nw x w =
     (let pfx = worker_prefix workerID;
          client = createHTTPClient pfx;
          w1 = print (Printf worker_started_format [S pfx, I workerID]) w
      in case makeRequest client pfx nw x w1 of
           None \<Rightarrow> \<lparr>wid = workerID, status = Stuck, wworld = w1\<rparr>
         | Some w2 \<Rightarrow> \<lparr>wid = workerID, status = Selecting, wworld = w2\<rparr>)"

fun select_case :: "network \<Rightarrow> select \<Rightarrow> worker \<Rightarrow> worker" where
  \<comment> \<open>one turn of the loop of \<open>runWorker\<close>, for what its \<^verbatim>\<open>select\<close> receives\<close>
  "select_case nw (Tick x) wk =
     (case makeRequest (createHTTPClient (worker_prefix (wid wk))) (worker_prefix (wid wk)) nw x
             (wworld wk) of
        None \<Rightarrow> wk\<lparr>status := Stuck\<rparr>
      | Some w' \<Rightarrow> wk\<lparr>wworld := w'\<rparr>)"
| "select_case nw (Stop s) wk =
     wk\<lparr>status := Returned,
        wworld := print (Printf worker_stopping_format [S (worker_prefix (wid wk)), I (wid wk)])
                    (wworld wk)\<rparr>"

fun worker_loop :: "network \<Rightarrow> select list \<Rightarrow> worker \<Rightarrow> worker" where
  \<comment> \<open>the loop, against what its \<^verbatim>\<open>select\<close> receives in order; it goes on while the worker is
      waiting in the \<^verbatim>\<open>select\<close>\<close>
  "worker_loop nw [] wk = wk"
| "worker_loop nw (ev # evs) wk =
     (if status wk = Selecting then worker_loop nw evs (select_case nw ev wk) else wk)"

definition runWorker :: "int \<Rightarrow> network \<Rightarrow> exchange \<Rightarrow> select list \<Rightarrow> world \<Rightarrow> worker" where
  "runWorker workerID nw x evs w = worker_loop nw evs (worker_start workerID nw x w)"

definition connection_established :: "Client \<Rightarrow> network \<Rightarrow> exchange \<Rightarrow> world \<Rightarrow> bool" where
  \<comment> \<open>the request of the exchange gets its connection: from the pool, or from a dial that succeeds\<close>
  "connection_established c nw x w =
     (case idle_conn x of
        Some cw \<Rightarrow> True
      | None \<Rightarrow>
          (case DialContext (Transport c) None nw ''tcp'' (dial_addr x) w of
             Some (Inr cw, w1) \<Rightarrow> True
           | _ \<Rightarrow> False))"

definition exchange_stalled :: exchange where
  \<comment> \<open>the connection is made and the server never answers\<close>
  "exchange_stalled = exchange0\<lparr>reply := Never\<rparr>"

definition worker1 :: worker where
  \<comment> \<open>worker 1, waiting in its \<^verbatim>\<open>select\<close>\<close>
  "worker1 = \<lparr>wid = 1, status = Selecting, wworld = world0\<rparr>"

subsection \<open>The supervisor\<close>

datatype action = Print printed | Notify "signal list" | Sleep Duration | Go int | Receive
  \<comment> \<open>what \<open>main\<close> does, in order: print, register the stop channel for signals, sleep,
      start \<open>runWorker\<close> with an identity in a goroutine, receive from the stop channel\<close>

definition invalid_format :: string where
  "invalid_format = ''Invalid number of goroutines: %s. Using default value of 1.'' @ [CHR 0x0A]"

definition banner_format :: string where
  "banner_format =
     ''Starting HTTP monitor for %s using host override %s with %d goroutine(s)'' @ [CHR 0x0A]"

definition numGoroutines :: "string list \<Rightarrow> int \<times> printed list" where
  \<comment> \<open>the worker count that \<open>main\<close> takes from \<^verbatim>\<open>os.Args\<close>, and what it prints meanwhile\<close>
  "numGoroutines args =
     (if 1 < length args
      then (case Atoi (args ! 1) of
              Inr n \<Rightarrow>
                if 0 < n then (n, []) else (1, [Printf invalid_format [S (args ! 1)]])
            | Inl err \<Rightarrow> (1, [Printf invalid_format [S (args ! 1)]]))
      else (1, []))"

function spawn_loop :: "int \<Rightarrow> int \<Rightarrow> action list" where
  \<comment> \<open>\<^verbatim>\<open>for i := 0; i < numGoroutines; i++\<close>, from \<open>i\<close>; \<open>i + 1\<close> never passes \<open>n\<close>\<close>
  "spawn_loop i n =
     (if i < n then Sleep workerOffset # Go (i + 1) # spawn_loop (i + 1) n else [])"
  by pat_completeness auto
termination
  by (relation "measure (\<lambda>(i, n). nat (n - i))") auto

declare spawn_loop.simps [simp del]

definition supervise :: "int \<Rightarrow> action list" where
  \<comment> \<open>\<open>main\<close> from its banner to the receive it blocks on\<close>
  "supervise n =
     [Print (Printf banner_format [S targetURL, S hostOverride, I n]),
      Print (Println ''Press Ctrl+C to stop...''),
      Notify [Interrupt, SIGTERM]]
     @ spawn_loop 0 n @ [Receive]"

definition main_actions :: "string list \<Rightarrow> action list" where
  \<comment> \<open>\<open>main\<close> for the arguments \<^verbatim>\<open>os.Args\<close>, up to the receive it blocks on\<close>
  "main_actions args =
     (case numGoroutines args of (n, msgs) \<Rightarrow> map Print msgs @ supervise n)"

fun launched :: "action list \<Rightarrow> int list" where
  \<comment> \<open>the identities of the workers started, in order\<close>
  "launched [] = []"
| "launched (Go k # acts) = k # launched acts"
| "launched (_ # acts) = launched acts"

fun launch_times :: "int \<Rightarrow> action list \<Rightarrow> (int \<times> int) list" where
  \<comment> \<open>each worker started with the time slept before its start, counted from \<open>t\<close>\<close>
  "launch_times t [] = []"
| "launch_times t (Sleep d # acts) = launch_times (t + d) acts"
| "launch_times t (Go k # acts) = (k, t) # launch_times t acts"
| "launch_times t (_ # acts) = launch_times t acts"

fun receive_time :: "int \<Rightarrow> action list \<Rightarrow> int option" where
  \<comment> \<open>the time slept before the first receive, counted from \<open>t\<close>\<close>
  "receive_time t [] = None"
| "receive_time t (Sleep d # acts) = receive_time (t + d) acts"
| "receive_time t (Receive # acts) = Some t"
| "receive_time t (_ # acts) = receive_time t acts"

fun slept :: "action list \<Rightarrow> Duration" where
  \<comment> \<open>the time slept in all of the actions\<close>
  "slept [] = 0"
| "slept (Sleep d # acts) = d + slept acts"
| "slept (_ # acts) = slept acts"

definition unsigned :: "string \<Rightarrow> string" where
  \<comment> \<open>the text without one leading sign\<close>
  "unsigned s = (if s \<noteq> [] \<and> (hd s = CHR ''+'' \<or> hd s = CHR ''-'') then tl s else s)"

definition numeric :: "string \<Rightarrow> bool" where
  \<comment> \<open>an optional sign and then decimal digits, at least one\<close>
  "numeric s = (unsigned s \<noteq> [] \<and> list_all is_digit (unsigned s))"

definition digit_value :: "char \<Rightarrow> int" where
  "digit_value c = of_char c - 48"

definition digits_value :: "string \<Rightarrow> int" where
  \<comment> \<open>the number that a text of decimal digits writes\<close>
  "digits_value ds = foldl (\<lambda>a c. a * 10 + digit_value c) 0 ds"

definition decimal_value :: "string \<Rightarrow> int" where
  \<comment> \<open>the number that a numeric text writes, of any size\<close>
  "decimal_value s =
     (if s \<noteq> [] \<and> hd s = CHR ''-'' then - digits_value (unsigned s)
      else digits_value (unsigned s))"

subsection \<open>The process: one stop channel, the supervisor and its workers\<close>

record system =
  stopChan :: "signal list"
    \<comment> \<open>the values buffered in \<^verbatim>\<open>make(chan os.Signal, 1)\<close>\<close>
  main_waiting :: bool
    \<comment> \<open>\<open>main\<close> is blocked in its receive; once it returns the process is over\<close>
  main_out :: "printed list"
  workers :: "worker list"

datatype event =
    Deliver signal          \<comment> \<open>a registered signal arrives: a send that does not block\<close>
  | Main_receive            \<comment> \<open>the receive of \<open>main\<close> takes a value\<close>
  | Worker_receive int      \<comment> \<open>the \<^verbatim>\<open>select\<close> of that worker takes a value\<close>
  | Worker_tick int exchange  \<comment> \<open>the \<^verbatim>\<open>select\<close> of that worker takes a tick\<close>

fun worker_turn :: "network \<Rightarrow> int \<Rightarrow> select \<Rightarrow> worker list \<Rightarrow> worker list option" where
  \<comment> \<open>the worker with that identity, waiting in its \<^verbatim>\<open>select\<close>, takes one turn of its loop;
      \<open>None\<close> when no such worker waits\<close>
  "worker_turn nw k ev [] = None"
| "worker_turn nw k ev (wk # wks) =
     (if wid wk = k \<and> status wk = Selecting then Some (select_case nw ev wk # wks)
      else (case worker_turn nw k ev wks of None \<Rightarrow> None | Some wks' \<Rightarrow> Some (wk # wks')))"

fun system_step :: "network \<Rightarrow> event \<Rightarrow> system \<Rightarrow> system option" where
  \<comment> \<open>\<open>None\<close>: the event cannot happen in this state (a receive from the empty channel blocks;
      nothing happens once \<open>main\<close> has returned)\<close>
  "system_step nw (Deliver s) sys =
     (if \<not> main_waiting sys then None
      else if length (stopChan sys) < 1 then Some (sys\<lparr>stopChan := stopChan sys @ [s]\<rparr>)
      else Some sys)"
| "system_step nw Main_receive sys =
     (if \<not> main_waiting sys then None
      else case stopChan sys of
             [] \<Rightarrow> None
           | s # rest \<Rightarrow>
               Some (sys\<lparr>stopChan := rest, main_waiting := False,
                         main_out := main_out sys @ [Println (CHR 0x0A # ''Shutting down...'')]\<rparr>))"
| "system_step nw (Worker_receive k) sys =
     (if \<not> main_waiting sys then None
      else case stopChan sys of
             [] \<Rightarrow> None
           | s # rest \<Rightarrow>
               (case worker_turn nw k (Stop s) (workers sys) of
                  None \<Rightarrow> None
                | Some wks \<Rightarrow> Some (sys\<lparr>stopChan := rest, workers := wks\<rparr>)))"
| "system_step nw (Worker_tick k x) sys =
     (if \<not> main_waiting sys then None
      else case worker_turn nw k (Tick x) (workers sys) of
             None \<Rightarrow> None
           | Some wks \<Rightarrow> Some (sys\<lparr>workers := wks\<rparr>))"

fun run :: "network \<Rightarrow> event list \<Rightarrow> system \<Rightarrow> system option" where
  "run nw [] sys = Some sys"
| "run nw (ev # evs) sys =
     (case system_step nw ev sys of None \<Rightarrow> None | Some sys' \<Rightarrow> run nw evs sys')"

definition waiting_system :: "string list \<Rightarrow> network \<Rightarrow> exchange \<Rightarrow> system" where
  \<comment> \<open>the process when \<open>main\<close> reaches its receive: every worker it started has made its initial
      probe (against the exchange \<open>x\<close>, from \<open>world0\<close>) and no signal has arrived\<close>
  "waiting_system args nw x =
     \<lparr>stopChan = [],
      main_waiting = True,
      main_out = [l. Print l \<leftarrow> main_actions args],
      workers = map (\<lambda>k. worker_start k nw x world0) (launched (main_actions args))\<rparr>"

definition stopping_lines :: "worker \<Rightarrow> nat" where
  \<comment> \<open>how many stopping lines the worker has printed\<close>
  "stopping_lines wk =
     length (filter (\<lambda>l. case l of Printf f ops \<Rightarrow> f = worker_stopping_format | Println t \<Rightarrow> False)
               (stdout (wworld wk)))"

definition outcome_lines :: "worker \<Rightarrow> nat" where
  \<comment> \<open>how many probe outcomes (end or error lines) the worker has printed\<close>
  "outcome_lines wk =
     length (filter (\<lambda>l. case l of Printf f ops \<Rightarrow> f = end_format \<or> f = error_format
                         | Println t \<Rightarrow> False)
               (stdout (wworld wk)))"

definition statuses :: "system \<Rightarrow> wstatus list" where
  "statuses sys = map status (workers sys)"

definition stopping_counts :: "system \<Rightarrow> nat list" where
  "stopping_counts sys = map stopping_lines (workers sys)"

definition outcome_counts :: "system \<Rightarrow> nat list" where
  "outcome_counts sys = map outcome_lines (workers sys)"

definition returned :: "worker list \<Rightarrow> nat" where
  \<comment> \<open>how many of the workers have returned from \<open>runWorker\<close>\<close>
  "returned wks = length (filter (\<lambda>wk. status wk = Returned) wks)"

definition consumed :: "system \<Rightarrow> nat" where
  \<comment> \<open>how many receives from the stop channel have taken a value: one for each worker that
      returned, one for \<open>main\<close> when it returned\<close>
  "consumed sys = returned (workers sys) + (if main_waiting sys then 0 else 1)"

fun delivered :: "event list \<Rightarrow> nat" where
  \<comment> \<open>how many signals arrive in the events\<close>
  "delivered [] = 0"
| "delivered (Deliver s # evs) = Suc (delivered evs)"
| "delivered (_ # evs) = delivered evs"


section \<open>Properties\<close>

text \<open>
  C4. Every call of the wrapper's \<open>Close\<close> prints exactly one record, which carries the
  wrapper's worker prefix and remote address; it closes the embedded connection (and nothing
  else); and it returns the error of the embedded close, whatever that is, unchanged.
\<close>

theorem Close_logs_once_and_forwards:
  "stdout (snd (Close nw c w)) =
      stdout w @ [Printf closed_format [S (prefix c), S (addr c)]]
   \<and> closed_conns (snd (Close nw c w)) = closed_conns w @ [Conn c]
   \<and> fst (Close nw c w) = fst (Conn_Close nw (Conn c) w)
   \<and> fst (Close nw c w) = close_result nw (Conn c)
   \<and> clock (snd (Close nw c w)) = clock w
   \<and> dialed (snd (Close nw c w)) = dialed w"
  by (simp add: Close_def Conn_Close_def print_def)

subsection \<open>The dial step\<close>

lemma LastIndexByte_split:
  assumes "LastIndexByte s c = Some i"
  shows "s = take i s @ c # drop (i + 1) s \<and> c \<notin> set (drop (i + 1) s) \<and> i < length s"
proof -
  from assms have cin: "c \<in> set s"
    and i: "i = length s - 1 - length (takeWhile (\<lambda>x. x \<noteq> c) (rev s))"
    by (auto simp: LastIndexByte_def split: if_splits)
  let ?t = "takeWhile (\<lambda>x. x \<noteq> c) (rev s)"
  let ?d = "dropWhile (\<lambda>x. x \<noteq> c) (rev s)"
  from cin have dne: "?d \<noteq> []" by (simp add: dropWhile_eq_Nil_conv) 
  then obtain ds where d: "?d = c # ds"
    using hd_dropWhile[of "\<lambda>x. x \<noteq> c" "rev s"] by (cases ?d) auto
  have "rev s = ?t @ c # ds" using takeWhile_dropWhile_id[of "\<lambda>x. x \<noteq> c" "rev s"] d by simp
  then have s: "s = rev ds @ c # rev ?t" by (metis rev_rev_ident rev_append rev.simps(2) append.assoc append_Cons append_Nil)
  have len: "length s = length ds + 1 + length ?t" by (subst s) simp
  have i': "i = length (rev ds)" using i len by simp
  have nt: "c \<notin> set (rev ?t)" using set_takeWhileD[of c "\<lambda>x. x \<noteq> c" "rev s"] by auto
  have tk: "take i s = rev ds" by (subst s) (simp add: i')
  have dr: "drop (i + 1) s = rev ?t" by (subst s) (simp add: i')
  show ?thesis using tk dr nt s len i' by simp
qed

lemma SplitHostPort_port:
  assumes "SplitHostPort a = Inr (h, p)"
  shows "\<exists>i. LastIndexByte a (CHR '':'') = Some i \<and> p = drop (i + 1) a"
  using assms
  by (auto simp: SplitHostPort_def brackets_ok_def Let_def split: option.splits if_splits)

lemma SplitHostPort_port_suffix:
  assumes "SplitHostPort a = Inr (h, p)"
  shows "\<exists>front. a = front @ '':'' @ p \<and> CHR '':'' \<notin> set p"
proof -
  from SplitHostPort_port[OF assms] obtain i where
    i: "LastIndexByte a (CHR '':'') = Some i" and p: "p = drop (i + 1) a" by blast
  from LastIndexByte_split[OF i] p have "a = take i a @ '':'' @ p" "CHR '':'' \<notin> set p" by auto
  then show ?thesis by blast
qed

lemma DialContext_of_returns: "DialContext_of ov pfx ctx nw net a w \<noteq> None"
  by (auto simp: DialContext_of_def Dialer_DialContext_def time_limit_def Second_def
      Millisecond_def Let_def split: sum.splits timed.splits option.splits)

lemma DialContext_of_split_ok:
  assumes "ov \<noteq> []" "SplitHostPort a = Inr (h, p)"
  shows "\<exists>r w'. DialContext_of ov pfx ctx nw net a w = Some (r, w')
          \<and> dialed w' = dialed w @ [(''tcp4'', JoinHostPort ov p)]
          \<and> (\<forall>c. r = Inr c \<longrightarrow> addr c = JoinHostPort ov p)"
  using assms
  by (auto simp: DialContext_of_def dial_address_def Dialer_DialContext_def time_limit_def
      Second_def Millisecond_def Let_def elapse_def print_def
      split: sum.splits timed.splits option.splits)

lemma DialContext_of_split_fails:
  assumes "ov \<noteq> []" "SplitHostPort a = Inl e"
  shows "DialContext_of ov pfx ctx nw net a w = Some (Inl e, w)"
  using assms by (simp add: DialContext_of_def dial_address_def)

text \<open>
  C1. With a non-empty override \<open>ov\<close>, a dial for address \<open>a\<close> whose split succeeds with port
  \<open>p\<close> (the part of \<open>a\<close> behind its last colon) makes exactly one connect attempt, to
  \<open>JoinHostPort ov p\<close>, and a connection it returns carries that address; when the split
  fails the dial returns that error, no connection, and attempts nothing. The client built by
  \<open>createHTTPClient\<close> dials in this way with the override \<open>hostOverride\<close>.
\<close>

theorem dial_substitutes_host_only:
  assumes "ov \<noteq> []"
  shows "(\<forall>h p. SplitHostPort a = Inr (h, p) \<longrightarrow>
            (\<exists>front. a = front @ '':'' @ p) \<and>
            (\<exists>r w'. DialContext_of ov pfx ctx nw net a w = Some (r, w')
               \<and> dialed w' = dialed w @ [(''tcp4'', JoinHostPort ov p)]
               \<and> (\<forall>c. r = Inr c \<longrightarrow> addr c = JoinHostPort ov p)))
       \<and> (\<forall>e. SplitHostPort a = Inl e \<longrightarrow>
            DialContext_of ov pfx ctx nw net a w = Some (Inl e, w))
       \<and> (CHR '':'' \<notin> set ov \<longrightarrow> (\<forall>p. JoinHostPort ov p = ov @ '':'' @ p))
       \<and> DialContext (Transport (createHTTPClient pfx)) = DialContext_of hostOverride pfx"
proof (intro conjI allI impI)
  fix h p assume "SplitHostPort a = Inr (h, p)"
  then show "\<exists>front. a = front @ '':'' @ p" using SplitHostPort_port_suffix by blast
next
  fix h p assume "SplitHostPort a = Inr (h, p)"
  then show "\<exists>r w'. DialContext_of ov pfx ctx nw net a w = Some (r, w')
               \<and> dialed w' = dialed w @ [(''tcp4'', JoinHostPort ov p)]
               \<and> (\<forall>c. r = Inr c \<longrightarrow> addr c = JoinHostPort ov p)"
    using DialContext_of_split_ok[OF assms] by blast
next
  fix e assume "SplitHostPort a = Inl e"
  then show "DialContext_of ov pfx ctx nw net a w = Some (Inl e, w)"
    using DialContext_of_split_fails[OF assms] by blast
next
  fix p assume "CHR '':'' \<notin> set ov"
  then show "JoinHostPort ov p = ov @ '':'' @ p" by (simp add: JoinHostPort_def IndexByte_def)
next
  show "DialContext (Transport (createHTTPClient pfx)) = DialContext_of hostOverride pfx"
    by (simp add: createHTTPClient_def)
qed

lemma split_target: "SplitHostPort ''aga-degradation.pacnw.xyz:443'' = Inr (''aga-degradation.pacnw.xyz'', ''443'')"
  by code_simp

lemma split_nocolon: "SplitHostPort ''nocolon'' = Inl (AddrError missingPort ''nocolon'')"
  by code_simp

theorem dial_substitutes_host_only_witness:
  "hostOverride \<noteq> []
   \<and> SplitHostPort ''aga-degradation.pacnw.xyz:443'' = Inr (''aga-degradation.pacnw.xyz'', ''443'')
   \<and> (\<exists>r w'. DialContext (Transport (createHTTPClient ''[G1] '')) None network0 ''tcp''
                 ''aga-degradation.pacnw.xyz:443'' world0 = Some (r, w')
          \<and> dialed w' = [(''tcp4'', ''alias-icn1.vercel.com:443'')])
   \<and> SplitHostPort ''nocolon'' = Inl (AddrError missingPort ''nocolon'')
   \<and> DialContext (Transport (createHTTPClient ''[G1] '')) None network0 ''tcp'' ''nocolon'' world0
        = Some (Inl (AddrError missingPort ''nocolon''), world0)"
proof -
  have ov: "hostOverride \<noteq> []" by (simp add: hostOverride_def)
  have nc: "CHR '':'' \<notin> set hostOverride" by (simp add: hostOverride_def)
  have j: "JoinHostPort hostOverride ''443'' = ''alias-icn1.vercel.com:443''"
    using dial_substitutes_host_only[OF ov, where a = "''x''" and pfx = "''''" and ctx = None
        and nw = network0 and net = "''''" and w = world0] nc
    by (simp add: hostOverride_def)
  note t1 = dial_substitutes_host_only[OF ov, where a = "''aga-degradation.pacnw.xyz:443''"
      and pfx = "''[G1] ''" and ctx = None and nw = network0 and net = "''tcp''" and w = world0]
  note t2 = dial_substitutes_host_only[OF ov, where a = "''nocolon''"
      and pfx = "''[G1] ''" and ctx = None and nw = network0 and net = "''tcp''" and w = world0]
  from t1 split_target j obtain r w' where
    "DialContext_of hostOverride ''[G1] '' None network0 ''tcp'' ''aga-degradation.pacnw.xyz:443'' world0
       = Some (r, w')" "dialed w' = dialed world0 @ [(''tcp4'', ''alias-icn1.vercel.com:443'')]"
    by auto
  then show ?thesis using ov t1 t2 split_target split_nocolon
    by (simp add: world0_def)
qed

subsection \<open>The prober\<close>

lemma makeRequest_success:
  assumes "Client_Get client targetURL nw x (started pfx w) = Some (Inr resp, w2)"
      and "Copy_Discard (Body resp) w2 = Some ((n, e), w3)"
  shows "makeRequest client pfx nw x w =
           Some (Body_Close (print (Printf end_format
             [S pfx, Format (clock w2) layout, I (StatusCode resp), I n,
              D (Round (Sub (clock w2) (clock w)) Millisecond), S (header_text resp)]) w3))"
  using assms by (simp add: makeRequest_def started_def header_text_def Let_def)

lemma last_stdout_closed: "last (stdout (Body_Close (print l w))) = l"
  by (simp add: Body_Close_def print_def)

lemma clock_closed: "clock (Body_Close (print l w)) = clock w"
  by (simp add: Body_Close_def print_def)

lemma Copy_Discard_result:
  assumes "Copy_Discard b w = Some ((n, e), w')"
  shows "read_time b = Some (clock w' - clock w)
       \<and> n = (case broken_after b of
                None \<Rightarrow> int (length (content b))
              | Some (k, err) \<Rightarrow> int (min k (length (content b))))
       \<and> e = (case broken_after b of
                None \<Rightarrow> None
              | Some (k, err) \<Rightarrow> if k < length (content b) then Some err else None)"
  using assms
  by (auto simp: Copy_Discard_def elapse_def split: option.splits if_splits)

lemma canonical_key: "CanonicalMIMEHeaderKey ''x-vercel-id'' = ''X-Vercel-Id''"
  by code_simp

lemma get_other:
  assumes "reply x = After (95 * Millisecond) (Inr resp)" "idle_conn x = None"
     "dial_addr x = ''aga-degradation.pacnw.xyz:443''"
  shows "Client_Get (createHTTPClient ''[G1] '') targetURL network0 x (started ''[G1] '' world0)
     = Some (Inr resp, world_got)"
  using assms
  by (simp add: Client_Get_def createHTTPClient_def DialContext_of_def dial_address_def
      Dialer_DialContext_def time_limit_def network0_def world0_def started_def world_got_def
      print_def elapse_def Format_def split_target JoinHostPort_def IndexByte_def hostOverride_def
      Second_def Millisecond_def)

lemma got_exchange0:
  "Client_Get (createHTTPClient ''[G1] '') targetURL network0 exchange0
     (started ''[G1] '' world0) = Some (Inr response0, world_got)"
  by (rule get_other) (simp_all add: exchange0_def)

lemma drained_response0:
  "Copy_Discard (Body response0) world_got
     = Some ((5, None), world_got\<lparr>clock := 350 * Millisecond\<rparr>)"
  by (simp add: Copy_Discard_def response0_def world_got_def elapse_def Millisecond_def)

lemma round_100ms: "Round (Sub (100 * Millisecond) 0) Millisecond = 100 * Millisecond"
  by (simp add: Round_def Sub_def Millisecond_def maxDuration_def minDuration_def
      trunc_rem_def lessThanHalf_def)

lemma header_text_response0: "header_text response0 = ''icn1::abc''"
  by (simp add: header_text_def Header_Get_def response0_def canonical_key)

text \<open>
  C2, as the code has it. In a successful probe the start time is the clock as the call begins,
  before the GET is issued, and the end time printed in the outcome line is the clock at the
  moment the GET returns, before the body is read; the printed duration is their difference
  rounded to a millisecond. The time \<open>clock w3 - clock w2\<close> that reading the body takes is
  in neither: the call itself ends at \<open>clock w3\<close>.
\<close>

theorem end_time_is_read_when_get_returns:
  assumes "Client_Get client targetURL nw x (started pfx w) = Some (Inr resp, w2)"
      and "Copy_Discard (Body resp) w2 = Some ((n, e), w3)"
  shows "\<exists>w'. makeRequest client pfx nw x w = Some w'
           \<and> last (stdout w') =
               Printf end_format
                 [S pfx, Format (clock w2) layout, I (StatusCode resp), I n,
                  D (Round (Sub (clock w2) (clock w)) Millisecond), S (header_text resp)]
           \<and> clock (started pfx w) = clock w
           \<and> read_time (Body resp) = Some (clock w3 - clock w2)
           \<and> clock w' = clock w3"
proof -
  have "clock (started pfx w) = clock w" by (simp add: started_def print_def)
  then show ?thesis
    using makeRequest_success[OF assms] Copy_Discard_result[OF assms(2)]
    by (simp add: last_stdout_closed clock_closed)
qed

text \<open>
  C2 as stated fails. In \<open>exchange0\<close> the GET returns 100 ms after the start and the body takes
  250 ms more: the body is drained at 350 ms, the outcome line carries the end time 100 ms and
  the duration 100 ms.
\<close>

theorem end_time_precedes_drain_counterexample:
  "makeRequest (createHTTPClient ''[G1] '') ''[G1] '' network0 exchange0 world0 =
     Some \<lparr>clock = 350 * Millisecond,
           stdout = [Printf start_format [S ''[G1] '', T 0 layout],
                     Printf established_format [S ''[G1] '', S ''alias-icn1.vercel.com:443''],
                     Printf end_format
                       [S ''[G1] '', T (100 * Millisecond) layout, I 200, I 5,
                        D (100 * Millisecond), S ''icn1::abc'']],
           dialed = [(''tcp4'', ''alias-icn1.vercel.com:443'')],
           closed_conns = [], closed_bodies = 1\<rparr>"
  using makeRequest_success[OF got_exchange0 drained_response0] round_100ms header_text_response0
  by (simp add: world_got_def world0_def Body_Close_def print_def Format_def response0_def
      Millisecond_def)

text \<open>The hypotheses of the theorem for C2 hold in \<open>exchange0\<close>.\<close>

theorem end_time_is_read_when_get_returns_witness:
  "Client_Get (createHTTPClient ''[G1] '') targetURL network0 exchange0
      (started ''[G1] '' world0) = Some (Inr response0, world_got)
   \<and> Copy_Discard (Body response0) world_got
        = Some ((5, None), world_got\<lparr>clock := 350 * Millisecond\<rparr>)
   \<and> (\<exists>w'. makeRequest (createHTTPClient ''[G1] '') ''[G1] '' network0 exchange0 world0 = Some w'
          \<and> last (stdout w') =
               Printf end_format
                 [S ''[G1] '', T (100 * Millisecond) layout, I 200, I 5,
                  D (100 * Millisecond), S ''icn1::abc'']
          \<and> clock w' = 350 * Millisecond)"
  using end_time_is_read_when_get_returns[OF got_exchange0 drained_response0]
    got_exchange0 drained_response0 round_100ms header_text_response0
  by (auto simp: world_got_def world0_def Format_def response0_def Millisecond_def)

text \<open>
  C5, as the code has it. In a successful probe the size printed in the outcome line is the
  number of bytes that the copy read before the body ended or reading failed (the error of the
  copy is dropped): the full length of the body when nothing breaks, and the bytes read before
  the break otherwise, never more than the full length.
\<close>

theorem printed_size_is_bytes_read:
  assumes "Client_Get client targetURL nw x (started pfx w) = Some (Inr resp, w2)"
      and "Copy_Discard (Body resp) w2 = Some ((n, e), w3)"
  shows "\<exists>w'. makeRequest client pfx nw x w = Some w'
           \<and> (\<exists>ts st d h. last (stdout w') = Printf end_format [S pfx, ts, I st, I n, d, h])
           \<and> n = (case broken_after (Body resp) of
                    None \<Rightarrow> int (length (content (Body resp)))
                  | Some (k, err) \<Rightarrow> int (min k (length (content (Body resp)))))
           \<and> n \<le> int (length (content (Body resp)))"
proof -
  from Copy_Discard_result[OF assms(2)]
  have n: "n = (case broken_after (Body resp) of
                    None \<Rightarrow> int (length (content (Body resp)))
                  | Some (k, err) \<Rightarrow> int (min k (length (content (Body resp)))))"
    by simp
  then have le: "n \<le> int (length (content (Body resp)))"
    by (simp split: option.splits prod.splits)
  from makeRequest_success[OF assms]
  have "\<exists>w'. makeRequest client pfx nw x w = Some w'
           \<and> (\<exists>ts st d h. last (stdout w') = Printf end_format [S pfx, ts, I st, I n, d, h])"
    by (simp add: last_stdout_closed)
  with n le show ?thesis by blast
qed

lemma got_exchange_cut:
  "Client_Get (createHTTPClient ''[G1] '') targetURL network0 exchange_cut
     (started ''[G1] '' world0) = Some (Inr response_cut, world_got)"
  by (rule get_other) (simp_all add: exchange_cut_def exchange0_def)

lemma drained_response_cut:
  "Copy_Discard (Body response_cut) world_got
     = Some ((2, Some (NetError ''connection reset by peer'')),
             world_got\<lparr>clock := 103 * Millisecond\<rparr>)"
  by (simp add: Copy_Discard_def response_cut_def response0_def world_got_def elapse_def
      Millisecond_def)

lemma header_text_response_cut: "header_text response_cut = ''icn1::abc''"
  by (simp add: header_text_def Header_Get_def response_cut_def response0_def canonical_key)

text \<open>
  C5 as stated fails. In \<open>exchange_cut\<close> the GET succeeds and the connection breaks after two
  of the five bytes of the body: the outcome line prints the size 2.
\<close>

theorem printed_size_short_of_body_counterexample:
  "length (content (Body response_cut)) = 5
   \<and> makeRequest (createHTTPClient ''[G1] '') ''[G1] '' network0 exchange_cut world0 =
     Some \<lparr>clock = 103 * Millisecond,
           stdout = [Printf start_format [S ''[G1] '', T 0 layout],
                     Printf established_format [S ''[G1] '', S ''alias-icn1.vercel.com:443''],
                     Printf end_format
                       [S ''[G1] '', T (100 * Millisecond) layout, I 200, I 2,
                        D (100 * Millisecond), S ''icn1::abc'']],
           dialed = [(''tcp4'', ''alias-icn1.vercel.com:443'')],
           closed_conns = [], closed_bodies = 1\<rparr>"
  using makeRequest_success[OF got_exchange_cut drained_response_cut] round_100ms
    header_text_response_cut
  by (simp add: world_got_def world0_def Body_Close_def print_def Format_def response_cut_def
      response0_def Millisecond_def)

text \<open>The hypotheses of the theorem for C5 hold in \<open>exchange0\<close>, where the size is the full 5.\<close>

theorem printed_size_is_bytes_read_witness:
  "Client_Get (createHTTPClient ''[G1] '') targetURL network0 exchange0
      (started ''[G1] '' world0) = Some (Inr response0, world_got)
   \<and> Copy_Discard (Body response0) world_got
        = Some ((5, None), world_got\<lparr>clock := 350 * Millisecond\<rparr>)
   \<and> (\<exists>w'. makeRequest (createHTTPClient ''[G1] '') ''[G1] '' network0 exchange0 world0 = Some w'
          \<and> (\<exists>ts st d h. last (stdout w') = Printf end_format [S ''[G1] '', ts, I st, I 5, d, h]))
   \<and> length (content (Body response0)) = 5"
  using printed_size_is_bytes_read[OF got_exchange0 drained_response0]
    got_exchange0 drained_response0
  by (auto simp: response0_def)

text \<open>
  C8, as the code has it. In a successful probe the last operand of the outcome line is the
  first value of the header \<^verbatim>\<open>x-vercel-id\<close> when that value is not empty, and the text
  \<^verbatim>\<open>not found\<close> when the header is absent, has no value, or its first value is empty; in
  each case the line is the outcome line of a success, not the error line.
\<close>

theorem header_value_or_marker:
  assumes "Client_Get client targetURL nw x (started pfx w) = Some (Inr resp, w2)"
      and "Copy_Discard (Body resp) w2 = Some ((n, e), w3)"
  shows "\<exists>w'. makeRequest client pfx nw x w = Some w'
           \<and> (\<exists>ts st sz d.
                 last (stdout w') = Printf end_format [S pfx, ts, I st, I sz, d, S (header_text resp)])
           \<and> header_text resp =
               (case Header resp ''X-Vercel-Id'' of
                  None \<Rightarrow> ''not found''
                | Some [] \<Rightarrow> ''not found''
                | Some (v # vs) \<Rightarrow> if v = [] then ''not found'' else v)"
proof -
  have "header_text resp =
               (case Header resp ''X-Vercel-Id'' of
                  None \<Rightarrow> ''not found''
                | Some [] \<Rightarrow> ''not found''
                | Some (v # vs) \<Rightarrow> if v = [] then ''not found'' else v)"
    by (simp add: header_text_def Header_Get_def canonical_key split: option.splits list.splits)
  then show ?thesis
    using makeRequest_success[OF assms] by (simp add: last_stdout_closed)
qed

lemma got_exchange_blank:
  "Client_Get (createHTTPClient ''[G1] '') targetURL network0 exchange_blank
     (started ''[G1] '' world0) = Some (Inr response_blank, world_got)"
  by (rule get_other) (simp_all add: exchange_blank_def exchange0_def)

lemma drained_response_blank:
  "Copy_Discard (Body response_blank) world_got
     = Some ((5, None), world_got\<lparr>clock := 350 * Millisecond\<rparr>)"
  by (simp add: Copy_Discard_def response_blank_def response0_def world_got_def elapse_def
      Millisecond_def)

text \<open>
  C8 as stated fails. The response of \<open>exchange_blank\<close> has the header, with the empty value:
  the outcome line prints \<^verbatim>\<open>not found\<close> in place of that value.
\<close>

theorem empty_header_value_counterexample:
  "Header response_blank ''X-Vercel-Id'' = Some [[]]
   \<and> makeRequest (createHTTPClient ''[G1] '') ''[G1] '' network0 exchange_blank world0 =
     Some \<lparr>clock = 350 * Millisecond,
           stdout = [Printf start_format [S ''[G1] '', T 0 layout],
                     Printf established_format [S ''[G1] '', S ''alias-icn1.vercel.com:443''],
                     Printf end_format
                       [S ''[G1] '', T (100 * Millisecond) layout, I 200, I 5,
                        D (100 * Millisecond), S ''not found'']],
           dialed = [(''tcp4'', ''alias-icn1.vercel.com:443'')],
           closed_conns = [], closed_bodies = 1\<rparr>"
proof -
  have h: "header_text response_blank = ''not found''"
    by (simp add: header_text_def Header_Get_def response_blank_def response0_def canonical_key)
  show ?thesis
    using makeRequest_success[OF got_exchange_blank drained_response_blank] round_100ms h
    by (simp add: world_got_def world0_def Body_Close_def print_def Format_def
        response_blank_def response0_def Millisecond_def)
qed

lemma got_exchange_bare:
  "Client_Get (createHTTPClient ''[G1] '') targetURL network0 exchange_bare
     (started ''[G1] '' world0) = Some (Inr response_bare, world_got)"
  by (rule get_other) (simp_all add: exchange_bare_def exchange0_def)

lemma drained_response_bare:
  "Copy_Discard (Body response_bare) world_got
     = Some ((5, None), world_got\<lparr>clock := 350 * Millisecond\<rparr>)"
  by (simp add: Copy_Discard_def response_bare_def response0_def world_got_def elapse_def
      Millisecond_def)

text \<open>
  The hypotheses of the theorem for C8 hold in \<open>exchange0\<close> (header present) and in
  \<open>exchange_bare\<close> (header absent).
\<close>

theorem header_value_or_marker_witness:
  "Header response0 ''X-Vercel-Id'' = Some [''icn1::abc'']
   \<and> (\<exists>w'. makeRequest (createHTTPClient ''[G1] '') ''[G1] '' network0 exchange0 world0 = Some w'
          \<and> (\<exists>ts st sz d.
                last (stdout w') = Printf end_format [S ''[G1] '', ts, I st, I sz, d, S ''icn1::abc'']))
   \<and> Header response_bare ''X-Vercel-Id'' = None
   \<and> (\<exists>w'. makeRequest (createHTTPClient ''[G1] '') ''[G1] '' network0 exchange_bare world0 = Some w'
          \<and> (\<exists>ts st sz d.
                last (stdout w') = Printf end_format [S ''[G1] '', ts, I st, I sz, d, S ''not found'']))"
proof -
  have a: "Header response0 ''X-Vercel-Id'' = Some [''icn1::abc'']"
    by (simp add: response0_def)
  have b: "Header response_bare ''X-Vercel-Id'' = None"
    by (simp add: response_bare_def)
  show ?thesis
    using header_value_or_marker[OF got_exchange0 drained_response0]
      header_value_or_marker[OF got_exchange_bare drained_response_bare] a b
    by auto
qed


subsection \<open>The supervisor\<close>

lemma launched_append: "launched (xs @ ys) = launched xs @ launched ys"
  by (induction xs rule: launched.induct) auto

lemma launched_prints: "launched (map Print msgs) = []"
  by (induction msgs) auto

lemma launched_spawn_loop: "launched (spawn_loop i n) = [i + 1..n]"
proof (induction i n rule: spawn_loop.induct)
  case (1 i n)
  show ?case
  proof (cases "i < n")
    case True
    then have "[i + 1..n] = (i + 1) # [i + 1 + 1..n]" by (simp add: upto_rec1)
    with True 1 show ?thesis by (subst spawn_loop.simps) simp
  next
    case False
    then show ?thesis by (subst spawn_loop.simps) simp
  qed
qed

lemma launched_supervise: "launched (supervise n) = [1..n]"
  by (simp add: supervise_def launched_append launched_spawn_loop)

lemma launched_main: "launched (main_actions args) = [1..fst (numGoroutines args)]"
  by (simp add: main_actions_def launched_append launched_prints launched_supervise
      split: prod.splits)

lemma digit_char: "d < 10 \<Longrightarrow> is_digit (char_of (48 + d :: nat)) \<and> (of_char (char_of (48 + d :: nat)) :: int) = 48 + int d"
proof -
  assume d: "d < 10"
  have "(of_char (char_of (48 + d :: nat)) :: nat) = 48 + d" using d by simp
  moreover have "(of_char (char_of (48 + d :: nat)) :: int) = int (of_char (char_of (48 + d :: nat)))"
    by (simp only: of_nat_of_char)
  ultimately show ?thesis using d by (simp add: is_digit_def)
qed

lemma digits_loop_append:
  "digits_loop s0 (xs @ ys) n =
     (case digits_loop s0 xs n of Inl e \<Rightarrow> Inl e | Inr m \<Rightarrow> digits_loop s0 ys m)"
  by (induction xs arbitrary: n) (auto simp: Let_def)

lemma digits_loop_digits_of:
  "int n \<le> maxUint64 \<Longrightarrow> digits_loop s0 (digits_of n) 0 = Inr (int n)"
proof (induction n rule: digits_of.induct)
  case (1 n)
  show ?case
  proof (cases "n < 10")
    case True
    then have e: "digits_of n = [char_of (48 + n)]" by (subst digits_of.simps) simp
    show ?thesis unfolding e using digit_char[OF True] True by (simp add: maxUint64_def)
  next
    case False
    have m: "n mod 10 < 10" by simp
    have d: "digits_of n = digits_of (n div 10) @ [char_of (48 + n mod 10)]"
      using False by (subst digits_of.simps) simp
    have le: "int (n div 10) \<le> maxUint64" using "1.prems" by (simp add: maxUint64_def)
    have ih: "digits_loop s0 (digits_of (n div 10)) 0 = Inr (int (n div 10))"
      using "1.IH"[OF False le] .
    have cut: "\<not> maxUint64 div 10 + 1 \<le> int (n div 10)"
      using "1.prems" by (simp add: maxUint64_def)
    have val: "int (n div 10) * 10 + (48 + int (n mod 10) - 48) = int n"
      by (simp add: zdiv_int zmod_int)
    show ?thesis
      unfolding d digits_loop_append ih
      using digit_char[OF m] cut val "1.prems" by (simp add: Let_def)
  qed
qed

lemma digits_of_digits: "c \<in> set (digits_of n) \<Longrightarrow> is_digit c"
proof (induction n rule: digits_of.induct)
  case (1 n)
  show ?case
  proof (cases "n < 10")
    case True
    then have "digits_of n = [char_of (48 + n)]" by (subst digits_of.simps) simp
    with "1.prems" digit_char[OF True] show ?thesis by simp
  next
    case False
    have m: "n mod 10 < 10" by simp
    have d: "digits_of n = digits_of (n div 10) @ [char_of (48 + n mod 10)]"
      using False by (subst digits_of.simps) simp
    with "1.prems" "1.IH"[OF False] digit_char[OF m] show ?thesis by auto
  qed
qed

lemma digits_of_nonempty: "digits_of n \<noteq> []"
  by (subst digits_of.simps) simp

lemma Atoi_itoa:
  assumes "0 \<le> n" "n < 2 ^ 63"
  shows "Atoi (itoa n) = Inr n"
proof -
  let ?s = "digits_of (nat n)"
  have s: "itoa n = ?s" using assms by (simp add: itoa_def)
  have ne: "?s \<noteq> []" by (rule digits_of_nonempty)
  then have "hd ?s \<in> set ?s" by simp
  then have "is_digit (hd ?s)" by (rule digits_of_digits)
  then have sign: "hd ?s \<noteq> CHR ''-''" "hd ?s \<noteq> CHR ''+''" by (auto simp: is_digit_def)
  have "int (nat n) \<le> maxUint64" using assms by (simp add: maxUint64_def)
  then have "digits_loop ?s ?s 0 = Inr (int (nat n))" by (rule digits_loop_digits_of)
  then have "ParseUint ?s = Inr n" using ne assms by (simp add: ParseUint_def)
  then show ?thesis using s ne sign assms by (simp add: Atoi_def)
qed

lemma digit_value_range: "is_digit c \<Longrightarrow> 0 \<le> digit_value c \<and> digit_value c \<le> 9"
proof -
  assume "is_digit c"
  then have "48 \<le> (of_char c :: nat) \<and> (of_char c :: nat) \<le> 57" by (simp add: is_digit_def)
  moreover have "(of_char c :: int) = int (of_char c)" by (simp only: of_nat_of_char)
  ultimately show ?thesis by (simp add: digit_value_def)
qed

lemma digits_fold_mono:
  "list_all is_digit ds \<Longrightarrow> 0 \<le> acc \<Longrightarrow>
   acc \<le> foldl (\<lambda>a c. a * 10 + digit_value c) acc ds"
proof (induction ds arbitrary: acc)
  case Nil
  then show ?case by simp
next
  case (Cons c ds)
  then have d: "0 \<le> digit_value c" and r: "list_all is_digit ds"
    using digit_value_range[of c] by simp_all
  have "acc \<le> acc * 10 + digit_value c" using Cons.prems(2) d by simp
  moreover have "acc * 10 + digit_value c
      \<le> foldl (\<lambda>a c. a * 10 + digit_value c) (acc * 10 + digit_value c) ds"
    using Cons.IH[OF r, of "acc * 10 + digit_value c"] Cons.prems(2) d by simp
  ultimately show ?case by simp
qed

lemma digits_loop_value:
  "list_all is_digit ds \<Longrightarrow> 0 \<le> acc \<Longrightarrow> acc \<le> maxUint64 \<Longrightarrow>
   digits_loop s0 ds acc =
     (if foldl (\<lambda>a c. a * 10 + digit_value c) acc ds \<le> maxUint64
      then Inr (foldl (\<lambda>a c. a * 10 + digit_value c) acc ds)
      else Inl (ErrRange s0))"
proof (induction ds arbitrary: acc)
  case Nil
  then show ?case by simp
next
  case (Cons c ds)
  let ?n1 = "acc * 10 + digit_value c"
  let ?V = "foldl (\<lambda>a c. a * 10 + digit_value c) ?n1 ds"
  from Cons.prems have c: "is_digit c" and r: "list_all is_digit ds" by simp_all
  have d: "0 \<le> digit_value c" "digit_value c \<le> 9" using digit_value_range[OF c] by simp_all
  have n1: "0 \<le> ?n1" using Cons.prems(2) d by simp
  have mono: "?n1 \<le> ?V" using digits_fold_mono[OF r n1] .
  have n1': "acc * 10 + (of_char c - 48) = ?n1" by (simp add: digit_value_def)
  show ?case
  proof (cases "maxUint64 div 10 + 1 \<le> acc")
    case True
    then have "maxUint64 < ?n1" using d by (simp add: maxUint64_def)
    with mono True c show ?thesis by simp
  next
    case False
    show ?thesis
    proof (cases "maxUint64 < ?n1")
      case True
      with mono False c show ?thesis by (simp add: n1' Let_def)
    next
      case nb: False
      then have "?n1 \<le> maxUint64" by simp
      with nb False c Cons.IH[OF r n1] show ?thesis by (simp add: n1' Let_def)
    qed
  qed
qed

lemma digits_value_nonneg: "list_all is_digit ds \<Longrightarrow> 0 \<le> digits_value ds"
  using digits_fold_mono[of ds 0] by (simp add: digits_value_def)

lemma Atoi_numeric:
  assumes "numeric s"
  shows "Atoi s =
     (if - (2 ^ 63) \<le> decimal_value s \<and> decimal_value s < 2 ^ 63 then Inr (decimal_value s)
      else Inl (ErrRange s))"
proof -
  let ?u = "unsigned s"
  from assms have u: "?u \<noteq> []" and ds: "list_all is_digit ?u" by (simp_all add: numeric_def)
  from u have ne: "s \<noteq> []" by (auto simp: unsigned_def)
  have s1: "(if hd s = CHR ''+'' \<or> hd s = CHR ''-'' then tl s else s) = ?u"
    using ne by (simp add: unsigned_def)
  have nn: "0 \<le> digits_value ?u" using digits_value_nonneg[OF ds] .
  have p: "ParseUint ?u =
     (if digits_value ?u \<le> maxUint64 then Inr (digits_value ?u) else Inl (ErrRange ?u))"
    using u digits_loop_value[OF ds, of 0 ?u] by (simp add: ParseUint_def digits_value_def maxUint64_def)
  have a: "Atoi s =
     (case ParseUint ?u of
        Inl (ErrRange _) \<Rightarrow> Inl (ErrRange s)
      | Inl _ \<Rightarrow> Inl (ErrSyntax s)
      | Inr un \<Rightarrow>
          if \<not> hd s = CHR ''-'' \<and> 2 ^ 63 \<le> un then Inl (ErrRange s)
          else if hd s = CHR ''-'' \<and> 2 ^ 63 < un then Inl (ErrRange s)
          else Inr (if hd s = CHR ''-'' then - un else un))"
    unfolding Atoi_def Let_def s1 using ne by simp
  show ?thesis
  proof (cases "hd s = CHR ''-''")
    case True
    then have dv: "decimal_value s = - digits_value ?u" using ne by (simp add: decimal_value_def)
    show ?thesis unfolding a p dv using True nn by (simp add: maxUint64_def)
  next
    case False
    then have dv: "decimal_value s = digits_value ?u" by (simp add: decimal_value_def)
    show ?thesis unfolding a p dv using False nn by (simp add: maxUint64_def)
  qed
qed


lemma digits_loop_nondigit:
  "c \<in> set s \<Longrightarrow> \<not> is_digit c \<Longrightarrow> \<exists>e. digits_loop s0 s n = Inl e"
  by (induction s arbitrary: n) (auto simp: Let_def)

lemma Atoi_nonnumeric:
  assumes "\<not> numeric arg"
  shows "\<exists>e. Atoi arg = Inl e"
proof (cases "arg = []")
  case True
  then show ?thesis by (simp add: Atoi_def)
next
  case False
  let ?u = "if hd arg = CHR ''+'' \<or> hd arg = CHR ''-'' then tl arg else arg"
  have u: "unsigned arg = ?u" using False by (simp add: unsigned_def)
  have "\<exists>e. ParseUint ?u = Inl e"
  proof (cases "?u = []")
    case True
    then show ?thesis by (simp add: ParseUint_def)
  next
    case ne: False
    with assms u obtain c where "c \<in> set ?u" "\<not> is_digit c"
      by (auto simp: numeric_def list_all_iff)
    then obtain e where "digits_loop ?u ?u 0 = Inl e"
      using digits_loop_nondigit by blast
    with ne show ?thesis by (simp add: ParseUint_def)
  qed
  then obtain e where "ParseUint ?u = Inl e" by blast
  with False show ?thesis by (cases e) (simp_all add: Atoi_def)
qed

lemma itoa_numeric:
  assumes "0 \<le> n" "n < 2 ^ 63"
  shows "numeric (itoa n) \<and> decimal_value (itoa n) = n"
proof -
  let ?s = "digits_of (nat n)"
  have s: "itoa n = ?s" using assms by (simp add: itoa_def)
  have ne: "?s \<noteq> []" by (rule digits_of_nonempty)
  then have "hd ?s \<in> set ?s" by simp
  then have "is_digit (hd ?s)" by (rule digits_of_digits)
  then have sign: "hd ?s \<noteq> CHR ''-''" "hd ?s \<noteq> CHR ''+''" by (auto simp: is_digit_def)
  have u: "unsigned ?s = ?s" using sign by (simp add: unsigned_def)
  have "list_all is_digit ?s" using digits_of_digits by (auto simp: list_all_iff)
  then have num: "numeric (itoa n)" using ne u s by (simp add: numeric_def)
  from Atoi_numeric[OF num] Atoi_itoa[OF assms] have "decimal_value (itoa n) = n"
    by (simp split: if_splits)
  with num show ?thesis by simp
qed

lemma numGoroutines_valid:
  assumes "numeric arg" "0 < decimal_value arg" "decimal_value arg < 2 ^ 63"
  shows "numGoroutines [prog, arg] = (decimal_value arg, [])"
  using Atoi_numeric[OF assms(1)] assms(2,3) by (simp add: numGoroutines_def)

text \<open>
  C6, as the code has it. For an argument that is numeric and writes a positive number below
  \<open>2 ^ 63\<close> (what Go's \<^verbatim>\<open>int\<close> holds on a 64-bit platform), the workers that \<open>main\<close> starts have
  the identities \<open>1, 2, ..., N\<close> in this order, with \<open>N\<close> that number: exactly \<open>N\<close> of them, all
  distinct. Every positive \<open>n\<close> below \<open>2 ^ 63\<close> has such a text, \<open>itoa n\<close>.
\<close>

theorem exactly_N_workers_ascending:
  assumes "numeric arg" "0 < decimal_value arg" "decimal_value arg < 2 ^ 63"
  shows "numGoroutines [prog, arg] = (decimal_value arg, [])
       \<and> launched (main_actions [prog, arg]) = [1..decimal_value arg]
       \<and> length (launched (main_actions [prog, arg])) = nat (decimal_value arg)
       \<and> distinct (launched (main_actions [prog, arg]))
       \<and> sorted (launched (main_actions [prog, arg]))
       \<and> numeric (itoa (decimal_value arg))
       \<and> decimal_value (itoa (decimal_value arg)) = decimal_value arg"
proof -
  note n = numGoroutines_valid[OF assms, of prog]
  have l: "launched (main_actions [prog, arg]) = [1..decimal_value arg]"
    using n by (simp add: launched_main)
  have i: "numeric (itoa (decimal_value arg))
       \<and> decimal_value (itoa (decimal_value arg)) = decimal_value arg"
    using itoa_numeric[of "decimal_value arg"] assms by simp
  show ?thesis using n l i assms by simp
qed

text \<open>
  C6 as stated fails. The argument \<^verbatim>\<open>9223372036854775808\<close> is the positive integer \<open>2 ^ 63\<close>;
  \<open>Atoi\<close> reports it out of range, \<open>main\<close> prints the message about the invalid number and
  starts the single worker 1.
\<close>

theorem count_beyond_int_counterexample:
  "numeric ''9223372036854775808''
   \<and> decimal_value ''9223372036854775808'' = 2 ^ 63
   \<and> Atoi ''9223372036854775808'' = Inl (ErrRange ''9223372036854775808'')
   \<and> numGoroutines [''monitor'', ''9223372036854775808'']
        = (1, [Printf invalid_format [S ''9223372036854775808'']])
   \<and> launched (main_actions [''monitor'', ''9223372036854775808'']) = [1]"
proof -
  have a: "numeric ''9223372036854775808''" by code_simp
  have b: "decimal_value ''9223372036854775808'' = 9223372036854775808" by code_simp
  have c: "Atoi ''9223372036854775808'' = Inl (ErrRange ''9223372036854775808'')"
    using Atoi_numeric[OF a] b by simp
  have d: "numGoroutines [''monitor'', ''9223372036854775808'']
        = (1, [Printf invalid_format [S ''9223372036854775808'']])"
    using c by (simp add: numGoroutines_def)
  have e: "launched (main_actions [''monitor'', ''9223372036854775808'']) = [1]"
    using d by (simp add: launched_main)
  show ?thesis using a b c d e by simp
qed

text \<open>The theorem for C6 at the arguments \<^verbatim>\<open>3\<close> and \<^verbatim>\<open>+12\<close>.\<close>

theorem exactly_N_workers_ascending_witness:
  "numeric ''3'' \<and> decimal_value ''3'' = 3
   \<and> launched (main_actions [''monitor'', ''3'']) = [1, 2, 3]
   \<and> numeric ''+12'' \<and> decimal_value ''+12'' = 12
   \<and> length (launched (main_actions [''monitor'', ''+12''])) = 12"
proof -
  have a: "numeric ''3''" "numeric ''+12''" by code_simp+
  have b: "decimal_value ''3'' = 3" "decimal_value ''+12'' = 12" by code_simp+
  have u: "[1..3::int] = [1, 2, 3]" by code_simp
  show ?thesis
    using exactly_N_workers_ascending[OF a(1), of "''monitor''"]
      exactly_N_workers_ascending[OF a(2), of "''monitor''"] a b u
    by simp
qed

lemma numGoroutines_invalid:
  assumes "\<not> numeric arg \<or> decimal_value arg \<le> 0"
  shows "numGoroutines [prog, arg] = (1, [Printf invalid_format [S arg]])"
proof (cases "numeric arg")
  case True
  with assms have "decimal_value arg \<le> 0" by simp
  with Atoi_numeric[OF True] show ?thesis by (simp add: numGoroutines_def)
next
  case False
  with Atoi_nonnumeric[of arg] show ?thesis by (auto simp: numGoroutines_def)
qed

lemma Atoi_1: "Atoi ''1'' = Inr 1"
  by code_simp

lemma numGoroutines_1: "numGoroutines [prog, ''1''] = (1, [])"
  using Atoi_1 by (simp add: numGoroutines_def)

lemma numGoroutines_default: "numGoroutines [prog] = (1, [])"
  by (simp add: numGoroutines_def)

text \<open>
  C7. For an argument that is not numeric, or that is numeric and writes zero or a negative
  number (of any size), \<open>main\<close> prints the message about the invalid number, takes the count 1,
  and from there does exactly what it does for the argument \<^verbatim>\<open>1\<close> (and without an argument):
  the same actions after the message, the same single worker, the same process at the receive
  but for the message in its output.
\<close>

theorem invalid_count_behaves_as_one:
  assumes "\<not> numeric arg \<or> decimal_value arg \<le> 0"
  shows "numGoroutines [prog, arg] = (1, [Printf invalid_format [S arg]])
       \<and> main_actions [prog, arg]
           = Print (Printf invalid_format [S arg]) # main_actions [prog, ''1'']
       \<and> main_actions [prog, ''1''] = supervise 1
       \<and> main_actions [prog] = supervise 1
       \<and> launched (main_actions [prog, arg]) = [1]
       \<and> workers (waiting_system [prog, arg] nw x) = workers (waiting_system [prog, ''1''] nw x)
       \<and> main_out (waiting_system [prog, arg] nw x)
           = Printf invalid_format [S arg] # main_out (waiting_system [prog, ''1''] nw x)"
proof -
  note a = numGoroutines_invalid[OF assms, of prog]
  have b: "main_actions [prog, arg]
           = Print (Printf invalid_format [S arg]) # main_actions [prog, ''1'']"
    using a numGoroutines_1[of prog] by (simp add: main_actions_def)
  have c: "main_actions [prog, ''1''] = supervise 1"
    using numGoroutines_1[of prog] by (simp add: main_actions_def)
  have d: "launched (main_actions [prog, arg]) = [1]"
    using a by (simp add: launched_main)
  have e: "main_actions [prog] = supervise 1"
    using numGoroutines_default[of prog] by (simp add: main_actions_def)
  show ?thesis using a b c d e by (simp add: waiting_system_def)
qed

text \<open>
  The theorem for C7 at the arguments \<^verbatim>\<open>abc\<close>, \<^verbatim>\<open>0\<close>, \<^verbatim>\<open>-3\<close> and a negative number that
  no \<^verbatim>\<open>int\<close> holds.
\<close>

theorem invalid_count_behaves_as_one_witness:
  "\<not> numeric ''abc'' \<and> decimal_value ''0'' = 0 \<and> decimal_value ''-3'' = - 3
   \<and> decimal_value ''-99999999999999999999'' = - 99999999999999999999
   \<and> launched (main_actions [''monitor'', ''abc'']) = [1]
   \<and> main_actions [''monitor'', ''0'']
        = Print (Printf invalid_format [S ''0'']) # main_actions [''monitor'', ''1'']
   \<and> main_actions [''monitor'', ''-3'']
        = Print (Printf invalid_format [S ''-3'']) # main_actions [''monitor'', ''1'']
   \<and> main_actions [''monitor'', ''-99999999999999999999'']
        = Print (Printf invalid_format [S ''-99999999999999999999''])
            # main_actions [''monitor'', ''1'']"
proof -
  have n: "\<not> numeric ''abc''" by code_simp
  have v: "decimal_value ''0'' = 0" "decimal_value ''-3'' = - 3"
    "decimal_value ''-99999999999999999999'' = - 99999999999999999999"
    by code_simp+
  have a: "\<not> numeric ''abc'' \<or> decimal_value ''abc'' \<le> 0" using n by simp
  have z: "\<not> numeric ''0'' \<or> decimal_value ''0'' \<le> 0" using v by simp
  have m: "\<not> numeric ''-3'' \<or> decimal_value ''-3'' \<le> 0" using v by simp
  have b: "\<not> numeric ''-99999999999999999999'' \<or> decimal_value ''-99999999999999999999'' \<le> 0"
    using v by simp
  show ?thesis
    using invalid_count_behaves_as_one[OF a, of "''monitor''" network0 exchange0]
      invalid_count_behaves_as_one[OF z, of "''monitor''" network0 exchange0]
      invalid_count_behaves_as_one[OF m, of "''monitor''" network0 exchange0]
      invalid_count_behaves_as_one[OF b, of "''monitor''" network0 exchange0]
      n v
    by (simp add: launched_supervise)
qed

lemma launch_times_spawn_loop:
  "launch_times t (spawn_loop i n) = map (\<lambda>k. (k, t + (k - i) * workerOffset)) [i + 1..n]"
proof (induction i n arbitrary: t rule: spawn_loop.induct)
  case (1 i n)
  show ?case
  proof (cases "i < n")
    case True
    then have u: "[i + 1..n] = (i + 1) # [i + 1 + 1..n]" by (simp add: upto_rec1)
    have "launch_times (t + workerOffset) (spawn_loop (i + 1) n)
            = map (\<lambda>k. (k, t + workerOffset + (k - (i + 1)) * workerOffset)) [i + 1 + 1..n]"
      using "1.IH"[OF True] .
    also have "\<dots> = map (\<lambda>k. (k, t + (k - i) * workerOffset)) [i + 1 + 1..n]"
      by (simp add: algebra_simps)
    finally show ?thesis using True u by (subst spawn_loop.simps) simp
  next
    case False
    then show ?thesis by (subst spawn_loop.simps) simp
  qed
qed

lemma slept_spawn_loop: "slept (spawn_loop i n) = max 0 (n - i) * workerOffset"
proof (induction i n rule: spawn_loop.induct)
  case (1 i n)
  show ?case
  proof (cases "i < n")
    case True
    with 1 show ?thesis by (subst spawn_loop.simps) (simp add: algebra_simps max_def)
  next
    case False
    then show ?thesis by (subst spawn_loop.simps) simp
  qed
qed

lemma launch_times_append:
  "launch_times t (xs @ ys) = launch_times t xs @ launch_times (t + slept xs) ys"
  by (induction t xs rule: launch_times.induct) (auto simp: add.assoc)

lemma receive_time_append:
  "Receive \<notin> set xs \<Longrightarrow> receive_time t (xs @ ys) = receive_time (t + slept xs) ys"
  by (induction t xs rule: receive_time.induct) (auto simp: add.assoc)

lemma spawn_loop_no_receive: "Receive \<notin> set (spawn_loop i n)"
proof (induction i n rule: spawn_loop.induct)
  case (1 i n)
  then show ?case by (subst spawn_loop.simps) simp
qed

lemma numGoroutines_at_least_1: "1 \<le> fst (numGoroutines args)"
  by (auto simp: numGoroutines_def split: sum.splits)

lemma slept_prints: "slept (map Print msgs) = 0"
  by (induction msgs) auto

lemma launch_times_prints: "launch_times t (map Print msgs) = []"
  by (induction msgs) auto

text \<open>
  C10. Whatever the arguments, with \<open>n\<close> the worker count taken from them: \<open>main\<close> sleeps one
  \<open>workerOffset\<close> before each start, the first included, so that worker \<open>k\<close> is started when
  \<open>k\<close> offsets have been slept, consecutive workers one offset apart, and \<open>main\<close> reaches its
  receive from the stop channel when \<open>n\<close> offsets have been slept.
\<close>

theorem stagger_precedes_every_worker:
  "launch_times t (main_actions args)
      = map (\<lambda>k. (k, t + k * workerOffset)) [1..fst (numGoroutines args)]
   \<and> receive_time t (main_actions args) = Some (t + fst (numGoroutines args) * workerOffset)
   \<and> 1 \<le> fst (numGoroutines args)
   \<and> 0 < workerOffset"
proof -
  obtain n msgs where nm: "numGoroutines args = (n, msgs)" by (cases "numGoroutines args")
  have n1: "1 \<le> n" using numGoroutines_at_least_1[of args] nm by simp
  have m: "main_actions args = map Print msgs @ supervise n"
    using nm by (simp add: main_actions_def)
  have l: "launch_times t (supervise n) = map (\<lambda>k. (k, t + k * workerOffset)) [1..n]"
    by (simp add: supervise_def launch_times_append launch_times_spawn_loop)
  have r: "receive_time t (supervise n) = Some (t + n * workerOffset)"
    using n1 spawn_loop_no_receive[of 0 n]
    by (simp add: supervise_def receive_time_append slept_spawn_loop)
  have p: "Receive \<notin> set (map Print msgs)" by auto
  show ?thesis
    using n1 nm l r
    by (simp add: m launch_times_append launch_times_prints slept_prints
        receive_time_append[OF p] workerOffset_def Millisecond_def)
qed


text \<open>The theorem for C10 with three workers: starts after 147, 294 and 441 ms.\<close>

theorem stagger_precedes_every_worker_witness:
  "launch_times 0 (main_actions [''monitor'', ''3''])
      = [(1, 147 * Millisecond), (2, 294 * Millisecond), (3, 441 * Millisecond)]
   \<and> receive_time 0 (main_actions [''monitor'', ''3'']) = Some (441 * Millisecond)"
proof -
  have a: "Atoi ''3'' = Inr 3" by code_simp
  have n: "numGoroutines [''monitor'', ''3''] = (3, [])"
    using a by (simp add: numGoroutines_def)
  have u: "[1..3::int] = [1, 2, 3]" by code_simp
  show ?thesis
    using stagger_precedes_every_worker[of 0 "[''monitor'', ''3'']"] n u
    by (simp add: workerOffset_def)
qed

subsection \<open>Timeouts\<close>

lemma dial_within_ten_seconds:
  "\<exists>r w'. DialContext_of ov pfx None nw net a w = Some (r, w')
          \<and> clock w' \<le> clock w + 10 * Second"
  by (auto simp: DialContext_of_def Dialer_DialContext_def time_limit_def Second_def
      Millisecond_def Let_def elapse_def print_def
      split: sum.splits timed.splits option.splits)

lemma Client_Get_stalls:
  assumes "reply x = Never" "Timeout c = 0" "connection_established c nw x w"
  shows "Client_Get c url nw x w = None"
  using assms
  by (auto simp: Client_Get_def connection_established_def
      split: option.splits sum.splits prod.splits)

lemma makeRequest_stalls:
  assumes "reply x = Never" "Timeout c = 0" "connection_established c nw x (started pfx w)"
  shows "makeRequest c pfx nw x w = None"
  using Client_Get_stalls[OF assms, of targetURL]
  by (simp add: makeRequest_def started_def Let_def)

lemma Client_Get_deadline:
  assumes "reply x = Never" "0 < Timeout c"
    "DialContext (Transport c) = DialContext_of ov p"
  shows "\<exists>e w'. Client_Get c url nw x w = Some (Inl e, w')"
proof (cases "idle_conn x")
  case None
  obtain r w1 where d: "DialContext_of ov p (Some (clock w + Timeout c)) nw ''tcp'' (dial_addr x) w
     = Some (r, w1)"
    using DialContext_of_returns[of ov p "Some (clock w + Timeout c)" nw "''tcp''" "dial_addr x" w]
    by auto
  show ?thesis using assms None d
    by (cases r) (simp_all add: Client_Get_def)
next
  case (Some cw)
  then show ?thesis using assms by (simp add: Client_Get_def)
qed

lemma makeRequest_deadline:
  assumes "reply x = Never" "0 < Timeout c"
    "DialContext (Transport c) = DialContext_of ov p"
  shows "makeRequest c pfx nw x w \<noteq> None"
proof -
  obtain e w' where "Client_Get c targetURL nw x (started pfx w) = Some (Inl e, w')"
    using Client_Get_deadline[OF assms] by blast
  then show ?thesis by (simp add: makeRequest_def started_def Let_def)
qed

text \<open>
  C9. The client that \<open>createHTTPClient\<close> builds has \<open>Timeout = 0\<close> (and no timeout for the
  response header); the constant \<open>requestTimeout\<close> of 10 s is in none of its fields. A dial of
  this client always returns, within 10 s. But when the connection is there and the reply never
  comes, the probe never returns, and the worker that took the tick is stuck in it whatever its
  \<^verbatim>\<open>select\<close> would receive next; the same client with \<open>Timeout = requestTimeout\<close> would return.
\<close>

theorem stalled_response_blocks_worker:
  assumes "reply x = Never"
      and "connection_established (createHTTPClient (worker_prefix (wid wk))) nw x
             (started (worker_prefix (wid wk)) (wworld wk))"
      and "status wk = Selecting"
  shows "Timeout (createHTTPClient pfx) = 0
       \<and> ResponseHeaderTimeout (Transport (createHTTPClient pfx)) = 0
       \<and> requestTimeout = 10 * Second
       \<and> (\<exists>r w'. DialContext (Transport (createHTTPClient pfx)) None nw' net a w = Some (r, w')
             \<and> clock w' \<le> clock w + 10 * Second)
       \<and> makeRequest (createHTTPClient (worker_prefix (wid wk))) (worker_prefix (wid wk)) nw x
             (wworld wk) = None
       \<and> worker_loop nw (Tick x # evs) wk = wk\<lparr>status := Stuck\<rparr>
       \<and> makeRequest ((createHTTPClient (worker_prefix (wid wk)))\<lparr>Timeout := requestTimeout\<rparr>)
             (worker_prefix (wid wk)) nw x (wworld wk) \<noteq> None"
proof -
  let ?p = "worker_prefix (wid wk)"
  have t: "Timeout (createHTTPClient ?p) = 0" by (simp add: createHTTPClient_def)
  have m: "makeRequest (createHTTPClient ?p) ?p nw x (wworld wk) = None"
    using makeRequest_stalls[OF assms(1) t assms(2)] .
  have l: "worker_loop nw (Tick x # evs) wk = wk\<lparr>status := Stuck\<rparr>"
    using m assms(3) by (cases evs) simp_all
  have d: "\<exists>r w'. DialContext (Transport (createHTTPClient pfx)) None nw' net a w = Some (r, w')
             \<and> clock w' \<le> clock w + 10 * Second"
    using dial_within_ten_seconds[of hostOverride pfx nw' net a w]
    by (simp add: createHTTPClient_def)
  have c: "makeRequest ((createHTTPClient ?p)\<lparr>Timeout := requestTimeout\<rparr>) ?p nw x (wworld wk)
             \<noteq> None"
    by (rule makeRequest_deadline[OF assms(1), where ov = hostOverride and p = ?p])
      (simp_all add: requestTimeout_def Second_def Millisecond_def createHTTPClient_def)
  show ?thesis using m l d c
    by (simp add: createHTTPClient_def requestTimeout_def)
qed

lemma worker_prefix_1: "worker_prefix 1 = ''[G1] ''"
  by code_simp

lemma established_stalled:
  "connection_established (createHTTPClient ''[G1] '') network0 exchange_stalled
     (started ''[G1] '' world0)"
  by (simp add: connection_established_def createHTTPClient_def DialContext_of_def dial_address_def
      Dialer_DialContext_def time_limit_def exchange_stalled_def exchange0_def network0_def
      split_target Second_def Millisecond_def)

text \<open>
  The hypotheses of the theorem for C9 hold for worker 1 and \<open>exchange_stalled\<close>: the worker
  stays stuck although a stop value follows the tick.
\<close>

theorem stalled_response_blocks_worker_witness:
  "reply exchange_stalled = Never
   \<and> connection_established (createHTTPClient ''[G1] '') network0 exchange_stalled
        (started ''[G1] '' world0)
   \<and> status worker1 = Selecting
   \<and> makeRequest (createHTTPClient ''[G1] '') ''[G1] '' network0 exchange_stalled world0 = None
   \<and> worker_loop network0 [Tick exchange_stalled, Stop Interrupt] worker1
        = worker1\<lparr>status := Stuck\<rparr>"
proof -
  have r: "reply exchange_stalled = Never" by (simp add: exchange_stalled_def)
  have s: "status worker1 = Selecting" by (simp add: worker1_def)
  have w: "wid worker1 = 1" "wworld worker1 = world0" by (simp_all add: worker1_def)
  have e: "connection_established (createHTTPClient (worker_prefix (wid worker1))) network0
             exchange_stalled (started (worker_prefix (wid worker1)) (wworld worker1))"
    using established_stalled by (simp add: w worker_prefix_1)
  show ?thesis
    using stalled_response_blocks_worker[OF r e s, where evs = "[Stop Interrupt]"]
      r s established_stalled
    by (simp add: w worker_prefix_1)
qed


subsection \<open>The stop channel\<close>

lemma returned_select_case:
  "status wk = Selecting \<Longrightarrow>
   returned (select_case nw ev wk # wks) = returned wks + (case ev of Stop s \<Rightarrow> 1 | Tick x \<Rightarrow> 0)"
  by (cases ev) (auto simp: returned_def split: option.splits)

lemma worker_turn_returned:
  "worker_turn nw k ev wks = Some wks' \<Longrightarrow>
   returned wks' = returned wks + (case ev of Stop s \<Rightarrow> 1 | Tick x \<Rightarrow> 0)"
proof (induction wks arbitrary: wks')
  case Nil
  then show ?case by simp
next
  case (Cons wk wks)
  show ?case
  proof (cases "wid wk = k \<and> status wk = Selecting")
    case True
    with Cons.prems have "wks' = select_case nw ev wk # wks" by simp
    moreover have "returned (wk # wks) = returned wks" using True by (simp add: returned_def)
    ultimately show ?thesis using True returned_select_case[of wk nw ev wks] by simp
  next
    case False
    with Cons.prems obtain r where r: "worker_turn nw k ev wks = Some r" "wks' = wk # r"
      by (auto split: option.splits)
    from Cons.IH[OF r(1)] r(2) show ?thesis by (simp add: returned_def)
  qed
qed

lemma system_step_conserves:
  assumes "system_step nw ev sys = Some sys'"
  shows "consumed sys' + length (stopChan sys') = consumed sys + length (stopChan sys) + delivered [ev]
       \<or> (consumed sys' = consumed sys \<and> stopChan sys' = stopChan sys)"
proof (cases ev)
  case (Deliver s)
  with assms show ?thesis by (auto simp: consumed_def split: if_splits)
next
  case Main_receive
  with assms show ?thesis by (auto simp: consumed_def split: if_splits list.splits)
next
  case (Worker_receive k)
  with assms obtain s rest wks where
    "stopChan sys = s # rest" "worker_turn nw k (Stop s) (workers sys) = Some wks"
    "sys' = sys\<lparr>stopChan := rest, workers := wks\<rparr>"
    by (auto split: if_splits list.splits option.splits)
  with worker_turn_returned[of nw k "Stop s" "workers sys" wks] Worker_receive
  show ?thesis by (simp add: consumed_def)
next
  case (Worker_tick k x)
  with assms obtain wks where
    "worker_turn nw k (Tick x) (workers sys) = Some wks" "sys' = sys\<lparr>workers := wks\<rparr>"
    by (auto split: if_splits option.splits)
  with worker_turn_returned[of nw k "Tick x" "workers sys" wks] Worker_tick
  show ?thesis by (simp add: consumed_def)
qed

lemma delivered_Cons: "delivered (ev # evs) = delivered [ev] + delivered evs"
  by (cases ev) simp_all

lemma run_conserves:
  "run nw evs sys = Some sys' \<Longrightarrow>
   consumed sys' + length (stopChan sys') \<le> consumed sys + length (stopChan sys) + delivered evs"
proof (induction evs arbitrary: sys)
  case Nil
  then show ?case by simp
next
  case (Cons ev evs)
  then obtain s1 where s1: "system_step nw ev sys = Some s1" "run nw evs s1 = Some sys'"
    by (auto split: option.splits)
  from Cons.IH[OF s1(2)] system_step_conserves[OF s1(1)] delivered_Cons[of ev evs]
  show ?case by auto
qed

lemma worker_start_not_returned: "status (worker_start k nw x w) \<noteq> Returned"
  by (simp add: worker_start_def Let_def split: option.splits)

lemma waiting_system_consumed: "consumed (waiting_system args nw x) = 0"
  by (simp add: consumed_def waiting_system_def returned_def worker_start_not_returned)

text \<open>
  A value on the stop channel is taken by one receive. From the process as \<open>main\<close> reaches its
  receive, whatever happens in whatever order, with at most one signal arriving: at most one
  of \<open>main\<close> and its workers has returned.
\<close>

lemma one_signal_one_receiver:
  assumes "run nw evs (waiting_system args nw x) = Some sys'" "delivered evs \<le> 1"
  shows "returned (workers sys') + (if main_waiting sys' then 0 else 1) \<le> 1"
  using run_conserves[OF assms(1)] assms(2) waiting_system_consumed[of args nw x]
  by (simp add: consumed_def waiting_system_def)

text \<open>
  C3, on the code. Two workers wait in their \<^verbatim>\<open>select\<close> and one interrupt arrives. If worker 1
  takes it, worker 1 prints its stopping line and returns, and the channel is empty: worker 2
  cannot take it, \<open>main\<close> cannot take it and stays in its receive, and worker 2 goes on to
  print a further probe outcome at its next tick. If \<open>main\<close> takes it, \<open>main\<close> returns and no
  worker has printed a stopping line, nor can one afterwards.
\<close>

theorem one_signal_does_not_reach_every_worker:
  "statuses (waiting_system [''monitor'', ''2''] network0 exchange0) = [Selecting, Selecting]
   \<and> map_option statuses
        (run network0 [Deliver Interrupt, Worker_receive 1]
           (waiting_system [''monitor'', ''2''] network0 exchange0)) = Some [Returned, Selecting]
   \<and> map_option stopping_counts
        (run network0 [Deliver Interrupt, Worker_receive 1]
           (waiting_system [''monitor'', ''2''] network0 exchange0)) = Some [1, 0]
   \<and> map_option main_waiting
        (run network0 [Deliver Interrupt, Worker_receive 1]
           (waiting_system [''monitor'', ''2''] network0 exchange0)) = Some True
   \<and> run network0 [Deliver Interrupt, Worker_receive 1, Worker_receive 2]
        (waiting_system [''monitor'', ''2''] network0 exchange0) = None
   \<and> run network0 [Deliver Interrupt, Worker_receive 1, Main_receive]
        (waiting_system [''monitor'', ''2''] network0 exchange0) = None
   \<and> map_option outcome_counts
        (run network0 [Deliver Interrupt, Worker_receive 1, Worker_tick 2 exchange0]
           (waiting_system [''monitor'', ''2''] network0 exchange0)) = Some [1, 2]
   \<and> map_option main_waiting
        (run network0 [Deliver Interrupt, Main_receive]
           (waiting_system [''monitor'', ''2''] network0 exchange0)) = Some False
   \<and> map_option stopping_counts
        (run network0 [Deliver Interrupt, Main_receive]
           (waiting_system [''monitor'', ''2''] network0 exchange0)) = Some [0, 0]
   \<and> run network0 [Deliver Interrupt, Main_receive, Worker_receive 1]
        (waiting_system [''monitor'', ''2''] network0 exchange0) = None"
  by code_simp


end
